theory Spec2Isabelle
  imports Complex_Main "HOL-Library.Log_Nat"
begin

section \<open>The depth-of-field sample: values and framework interface\<close>

text \<open>
  The application class \<^verbatim>\<open>DepthOfFieldApp\<close> (src/DepthOfField/src/DepthOfFieldApp.cpp) is
  embedded as functions over a record of its members. The \<^verbatim>\<open>float\<close> members and the
  simulation time \<^verbatim>\<open>mTime\<close> are read as \<^typ>\<open>real\<close>: for them comparisons, \<^verbatim>\<open>min\<close>, \<^verbatim>\<open>max\<close>
  and the four operations are the exact ones, and the conversion \<^verbatim>\<open>float( mTime )\<close> is the
  identity. The \<^verbatim>\<open>double\<close> values of the frame clock (the constant \<^verbatim>\<open>timestep\<close>, the statics
  \<^verbatim>\<open>time\<close> and \<^verbatim>\<open>accumulator\<close>, \<^verbatim>\<open>elapsed\<close>), on which the number of fixed updates of a
  frame depends, are IEEE 754 double-precision numbers with their rounding. \<^verbatim>\<open>int\<close> members
  are \<^typ>\<open>int\<close>.
\<close>

type_synonym vec2 = "real \<times> real"
type_synonym vec3 = "real \<times> real \<times> real"
type_synonym ivec2 = "int \<times> int"

text \<open>A \<^verbatim>\<open>ci::Sphere\<close>: centre and radius.\<close>

type_synonym sphere = "vec3 \<times> real"

definition vscale :: "vec3 \<Rightarrow> real \<Rightarrow> vec3" where
  "vscale v k = (case v of (x, y, z) \<Rightarrow> (x * k, y * k, z * k))"

definition vsub :: "vec3 \<Rightarrow> vec3 \<Rightarrow> vec3" where
  "vsub a b = (case a of (ax, ay, az) \<Rightarrow> case b of (bx, by, bz) \<Rightarrow> (ax - bx, ay - by, az - bz))"

definition vlength :: "vec3 \<Rightarrow> real" where
  "vlength v = (case v of (x, y, z) \<Rightarrow> sqrt (x * x + y * y + z * z))"

text \<open>\<^verbatim>\<open>glm::clamp( x, lo, hi )\<close> is \<^verbatim>\<open>min( max( x, lo ), hi )\<close>.\<close>

definition clamp :: "real \<Rightarrow> real \<Rightarrow> real \<Rightarrow> real" where
  "clamp x lo hi = min (max x lo) hi"

text \<open>\<^verbatim>\<open>FLT_MAX\<close>, the largest finite single-precision value, \<open>(2 - 2\<^sup>-\<^sup>2\<^sup>3) * 2\<^sup>1\<^sup>2\<^sup>7\<close>.\<close>

definition FLT_MAX :: real where
  "FLT_MAX = 340282346638528859811704183484516925440"

subsection \<open>Double-precision numbers\<close>

text \<open>
  A \<^verbatim>\<open>double\<close> (IEEE 754 binary64): a finite value, an infinity or a NaN. A finite
  value is given by the number it denotes; the sign of a zero is not kept, no operation
  used here tells the two zeros apart. Every operation rounds its result to a double
  (no wider intermediate format).
\<close>

datatype double = Finite real | PInf | NInf | NaN

text \<open>The nearest integer, a tie going to the even one.\<close>

definition rne :: "real \<Rightarrow> int" where
  "rne q = (let f = \<lfloor>q\<rfloor>; r = q - of_int f
            in if r < 1 / 2 then f else if 1 / 2 < r then f + 1 else if even f then f else f + 1)"

text \<open>
  The binary exponent of \<open>x\<close>, that is \<open>e\<close> with \<open>2\<^sup>e \<le> \<bar>x\<bar> < 2\<^sup>e\<^sup>+\<^sup>1\<close>, and -1022 in the subnormal
  range and at zero. The doubles of that exponent are the multiples of \<open>ulp x\<close>, the unit
  in the last of the 53 significant bits.
\<close>

definition exponent :: "real \<Rightarrow> int" where
  "exponent x = max (bitlen \<lfloor>\<bar>x\<bar> * 2 ^ 1074\<rfloor> - 1075) (- 1022)"

definition ulp :: "real \<Rightarrow> real" where
  "ulp x = 2 powi (exponent x - 52)"

text \<open>\<^verbatim>\<open>DBL_MAX\<close>, the largest finite double.\<close>

definition DBL_MAX :: real where
  "DBL_MAX = (2 ^ 53 - 1) * 2 ^ 971"

text \<open>
  The double a real number is rounded to, in the default mode (to nearest, ties to even;
  beyond \<^verbatim>\<open>DBL_MAX\<close> to an infinity).
\<close>

definition round_to_double :: "real \<Rightarrow> double" where
  "round_to_double x =
     (let r = of_int (rne (x / ulp x)) * ulp x
      in if DBL_MAX < r then PInf else if r < - DBL_MAX then NInf else Finite r)"

text \<open>Addition, negation and subtraction of doubles: the exact result, rounded.\<close>

fun dadd :: "double \<Rightarrow> double \<Rightarrow> double" where
  "dadd (Finite x) (Finite y) = round_to_double (x + y)"
| "dadd NaN y = NaN"
| "dadd x NaN = NaN"
| "dadd PInf NInf = NaN"
| "dadd NInf PInf = NaN"
| "dadd PInf y = PInf"
| "dadd x PInf = PInf"
| "dadd NInf y = NInf"
| "dadd x NInf = NInf"

fun dneg :: "double \<Rightarrow> double" where
  "dneg (Finite x) = Finite (- x)"
| "dneg PInf = NInf"
| "dneg NInf = PInf"
| "dneg NaN = NaN"

definition dsub :: "double \<Rightarrow> double \<Rightarrow> double" where
  "dsub x y = dadd x (dneg y)"

text \<open>The comparisons \<^verbatim>\<open><\<close> and \<^verbatim>\<open>>=\<close> of doubles: false whenever an operand is a NaN.\<close>

fun dless :: "double \<Rightarrow> double \<Rightarrow> bool" where
  "dless (Finite x) (Finite y) = (x < y)"
| "dless NaN y = False"
| "dless x NaN = False"
| "dless PInf y = False"
| "dless x NInf = False"
| "dless x PInf = True"
| "dless NInf y = True"

fun dge :: "double \<Rightarrow> double \<Rightarrow> bool" where
  "dge (Finite x) (Finite y) = (y \<le> x)"
| "dge NaN y = False"
| "dge x NaN = False"
| "dge PInf y = True"
| "dge x NInf = True"
| "dge x PInf = False"
| "dge NInf y = False"

text \<open>The number a finite double denotes.\<close>

primrec valof :: "double \<Rightarrow> real" where
  "valof (Finite x) = x"

text \<open>
  Cinder's \<^verbatim>\<open>math<double>::min( x, y )\<close>, which is \<^verbatim>\<open>( x < y ) ? x : y\<close>.
\<close>

definition math_min :: "double \<Rightarrow> double \<Rightarrow> double" where
  "math_min x y = (if dless x y then x else y)"

subsection \<open>Shader programs, framebuffers and events\<close>

datatype uniform_value = UInt int | UFloat real | UVec2 vec2

text \<open>
  A linked \<^verbatim>\<open>gl::GlslProg\<close>: the sources it was built from, its preprocessor
  definitions, and the uniforms assigned to it so far (latest last).
\<close>

record glsl_prog =
  vertex_src :: string
  fragment_src :: string
  prog_defines :: "(string \<times> string) list"
  uniforms :: "(string \<times> uniform_value) list"

definition uniform :: "string \<Rightarrow> uniform_value \<Rightarrow> glsl_prog \<Rightarrow> glsl_prog" where
  "uniform name v p = p\<lparr>uniforms := uniforms p @ [(name, v)]\<rparr>"

text \<open>A \<^verbatim>\<open>gl::Fbo\<close>: its size and the internal formats of its attachments.\<close>

record fbo =
  fbo_width :: int
  fbo_height :: int
  fbo_samples :: nat
  fbo_attachments :: "(string \<times> string) list"

datatype key_code = KEY_ESCAPE | KEY_SPACE | KEY_f | KEY_r | KEY_other int

record key_event =
  key_getCode :: key_code
  key_isShiftDown :: bool

record mouse_event =
  mouse_getPos :: ivec2
  mouse_isShiftDown :: bool

text \<open>
  An entry of the parameter panel \<^verbatim>\<open>mParams\<close>: a number with its optional range
  (minimum, maximum, step) and its read-only flag, a choice among labels, a separator, a
  button, a line of text.
\<close>

datatype param =
    NumParam string "(real \<times> real \<times> real) option" bool
  | EnumParam string "string list"
  | Separator
  | Button string
  | ParamText string

text \<open>
  What ends an execution: a read of the table \<^verbatim>\<open>fstops\<close> outside its bounds, the use of
  a null reference (both undefined in C++), an exception that no handler catches.
\<close>

datatype error = IndexOutOfBounds int | NullPointer string | UncaughtException string

subsection \<open>The framework the application is written against\<close>

text \<open>
  Cinder and glm are not part of this repository. Every routine of theirs that the
  application calls is a field of this record, so that each statement below holds for
  any implementation of the framework. A throwing routine returns \<open>Inl\<close> of the
  exception's \<^verbatim>\<open>what()\<close>. The random generator is the global one of \<^verbatim>\<open>ci::Rand\<close>:
  \<open>randSeed\<close> gives the generator's state after seeding, and a draw returns the value
  with the next state. \<open>intersect\<close> returns the function's result together with the
  values it stores through \<^verbatim>\<open>min\<close> and \<^verbatim>\<open>max\<close>. \<open>compile\<close> and \<open>createFbo\<close> return
  the exception of \<^verbatim>\<open>gl::GlslProg::create\<close> and \<^verbatim>\<open>gl::Fbo::create\<close>, \<open>None\<close> when they
  succeed. \<open>teapotBounds\<close> is the centre and the extents of the teapot mesh's bounding box.
\<close>

record ('cam, 'ray, 'rng, 'mat) cinder =
  getPivotDistance :: "'cam \<Rightarrow> real"
  getPivotPoint :: "'cam \<Rightarrow> vec3"
  getViewDirection :: "'cam \<Rightarrow> vec3"
  lookAt :: "'cam \<Rightarrow> vec3 \<Rightarrow> vec3 \<Rightarrow> 'cam"
  setFov :: "'cam \<Rightarrow> real \<Rightarrow> 'cam"
  getFocalLength :: "'cam \<Rightarrow> real"
  setPerspective :: "'cam \<Rightarrow> real \<Rightarrow> real \<Rightarrow> real \<Rightarrow> real \<Rightarrow> 'cam"
  setAspectRatio :: "'cam \<Rightarrow> real \<Rightarrow> 'cam"
  generateRay :: "'cam \<Rightarrow> vec2 \<Rightarrow> ivec2 \<Rightarrow> 'ray"
  cameraUi_mouseDown :: "'cam \<Rightarrow> mouse_event \<Rightarrow> 'cam"
  cameraUi_mouseDrag :: "'cam \<Rightarrow> mouse_event \<Rightarrow> 'cam"
  randSeed :: "nat \<Rightarrow> 'rng"
  randVec3 :: "'rng \<Rightarrow> vec3 \<times> 'rng"
  randFloat :: "real \<Rightarrow> real \<Rightarrow> 'rng \<Rightarrow> real \<times> 'rng"
  translate :: "vec3 \<Rightarrow> 'mat"
  rotate :: "real \<Rightarrow> vec3 \<Rightarrow> 'mat"
  mat_mul :: "'mat \<Rightarrow> 'mat \<Rightarrow> 'mat"
  radians :: "real \<Rightarrow> real"
  transformed :: "sphere \<Rightarrow> 'mat \<Rightarrow> sphere"
  intersect :: "sphere \<Rightarrow> 'ray \<Rightarrow> int \<times> real \<times> real"
  teapotBounds :: "vec3 \<times> vec3"
  loadAsset :: "string \<Rightarrow> string + string"
  loadImage :: "string \<Rightarrow> string + string"
  compile :: "string \<Rightarrow> string \<Rightarrow> (string \<times> string) list \<Rightarrow> string option"
  createFbo :: "fbo \<Rightarrow> string option"
  stockShader :: glsl_prog

subsection \<open>The application state\<close>

text \<open>
  The members of \<^verbatim>\<open>DepthOfFieldApp\<close> (a null \<^verbatim>\<open>Ref\<close> is \<open>None\<close>; a batch is
  represented by the program it draws with; \<open>mInstances\<close> is the content of the
  per-instance buffer), the two function-local statics of \<^verbatim>\<open>update()\<close>, and the state
  the framework keeps for the application: the global random generator, the window,
  the quit request, the console stream and the paths given to \<^verbatim>\<open>loadAsset\<close>.
\<close>

record ('cam, 'rng, 'mat) app =
  mCamera :: 'cam
  mBounds :: sphere
  mInstances :: "'mat list"
  mTeapots :: "glsl_prog option"
  mBackground :: "glsl_prog option"
  mSpheres :: "glsl_prog option"
  mTexGold :: "string option"
  mTexClay :: "string option"
  mFboSource :: "fbo option"
  mFboBlur0 :: "fbo option"
  mFboBlur1 :: "fbo option"
  mGlslBlur0 :: "glsl_prog option"
  mGlslBlur1 :: "glsl_prog option"
  mGlslComposite :: "glsl_prog option"
  mParams :: "param list"
  mAperture :: real
  mFocalStop :: int
  mFocalPlane :: real
  mFocalLength :: real
  mFoV :: real
  mMaxCoCRadiusPixels :: int
  mFarRadiusRescale :: real
  mDebugOption :: int
  mTime :: real
  mPaused :: bool
  mResized :: bool
  mShiftDown :: bool
  mShowBounds :: bool
  mMousePos :: vec2
  static_time :: "double option"
  static_accumulator :: double
  rand :: 'rng
  windowSize :: ivec2
  fullScreen :: bool
  quitRequested :: bool
  console :: "string list"
  assetLog :: "string list"

section \<open>The fixed-timestep update, \<^verbatim>\<open>update( double timestep )\<close>\<close>

text \<open>
  The table \<^verbatim>\<open>fstops\<close> of line 242. Reading a C array outside its bounds is undefined;
  the model makes it an error.
\<close>

definition fstops :: "real list" where
  "fstops = [0.7, 0.8, 1.0, 1.2, 1.4, 1.7, 2.0, 2.4, 2.8, 3.3, 4.0, 4.8, 5.6, 6.7, 8.0, 9.5, 11.0]"

definition fstops_at :: "int \<Rightarrow> real option" where
  "fstops_at i = (if 0 \<le> i \<and> i < int (length fstops) then Some (fstops ! nat i) else None)"

text \<open>
  The variables carried through the three nested loops of lines 254 to 276: the random
  generator, the matrices written through \<^verbatim>\<open>ptr\<close> so far, \<^verbatim>\<open>dist\<close>, and (as a record of
  the calls made) the spheres on which \<^verbatim>\<open>intersect\<close> was called.
\<close>

record ('rng, 'mat) scan =
  sc_rand :: 'rng
  sc_out :: "'mat list"
  sc_dist :: real
  sc_tested :: "sphere list"

text \<open>
  The loop body, lines 257 to 273. The two \<^verbatim>\<open>randFloat\<close> calls of line 259 are taken
  left to right.
\<close>

definition instance_step ::
  "('cam, 'ray, 'rng, 'mat) cinder \<Rightarrow> bool \<Rightarrow> sphere \<Rightarrow> 'ray \<Rightarrow> real \<Rightarrow>
   int \<times> int \<times> int \<Rightarrow> ('rng, 'mat) scan \<Rightarrow> ('rng, 'mat) scan" where
  "instance_step fw shift bounds ray time p st =
    (case p of (x, y, z) \<Rightarrow>
     let position = vscale (of_int x, of_int y, of_int z) 5;
         (axis, r1) = randVec3 fw (sc_rand st);
         (a0, r2) = randFloat fw (- 180) 180 r1;
         (a1, r3) = randFloat fw 1 90 r2;
         angle = a0 + a1 * time;
         transform = mat_mul fw (translate fw position) (rotate fw (radians fw angle) axis);
         st1 = st\<lparr>sc_rand := r3, sc_out := sc_out st @ [transform]\<rparr>
     in if shift then
          (let bounds' = transformed fw bounds transform;
               (n, mn, mx) = intersect fw bounds' ray;
               st2 = st1\<lparr>sc_tested := sc_tested st1 @ [bounds']\<rparr>
           in if n > 0 then (if mn < sc_dist st2 then st2\<lparr>sc_dist := mn\<rparr> else st2) else st2)
        else st1)"

definition loop_x ::
  "('cam, 'ray, 'rng, 'mat) cinder \<Rightarrow> bool \<Rightarrow> sphere \<Rightarrow> 'ray \<Rightarrow> real \<Rightarrow>
   int \<Rightarrow> int \<Rightarrow> ('rng, 'mat) scan \<Rightarrow> ('rng, 'mat) scan" where
  "loop_x fw shift bounds ray time z y st =
     fold (\<lambda>x. instance_step fw shift bounds ray time (x, y, z)) [- 4 .. 4] st"

definition loop_y ::
  "('cam, 'ray, 'rng, 'mat) cinder \<Rightarrow> bool \<Rightarrow> sphere \<Rightarrow> 'ray \<Rightarrow> real \<Rightarrow>
   int \<Rightarrow> ('rng, 'mat) scan \<Rightarrow> ('rng, 'mat) scan" where
  "loop_y fw shift bounds ray time z st =
     fold (\<lambda>y. loop_x fw shift bounds ray time z y) [- 4 .. 4] st"

definition loop_z ::
  "('cam, 'ray, 'rng, 'mat) cinder \<Rightarrow> bool \<Rightarrow> sphere \<Rightarrow> 'ray \<Rightarrow> real \<Rightarrow>
   ('rng, 'mat) scan \<Rightarrow> ('rng, 'mat) scan" where
  "loop_z fw shift bounds ray time st =
     fold (\<lambda>z. loop_y fw shift bounds ray time z) [- 4 .. 4] st"

text \<open>
  \<^verbatim>\<open>update( double timestep )\<close>, lines 228 to 283. \<^verbatim>\<open>mapReplace\<close> hands out the buffer
  with its former content discarded, so the buffer holds what the loop wrote.
\<close>

definition update_timestep ::
  "('cam, 'ray, 'rng, 'mat) cinder \<Rightarrow> real \<Rightarrow> ('cam, 'rng, 'mat) app \<Rightarrow>
   error + ('cam, 'rng, 'mat) app" where
  "update_timestep fw timestep s0 =
    (let s1 = s0\<lparr>mTime := mTime s0 + timestep\<rparr>;
         distance = clamp (getPivotDistance fw (mCamera s1)) 5 45;
         target = getPivotPoint fw (mCamera s1);
         eye = vsub target (vscale (getViewDirection fw (mCamera s1)) distance);
         s2 = s1\<lparr>mCamera := lookAt fw (mCamera s1) eye target\<rparr>;
         s3 = s2\<lparr>mCamera := setFov fw (mCamera s2) (mFoV s2)\<rparr>;
         s4 = s3\<lparr>mFocalLength := getFocalLength fw (mCamera s3)\<rparr>;
         s5 = s4\<lparr>mFocalPlane := max (mFocalPlane s4) (mFocalLength s4)\<rparr>
     in case fstops_at (mFocalStop s5) of
          None \<Rightarrow> Inl (IndexOutOfBounds (mFocalStop s5))
        | Some fstop \<Rightarrow>
           (let s6 = s5\<lparr>mAperture := mFocalLength s5 / fstop\<rparr>;
                ray = generateRay fw (mCamera s6) (mMousePos s6) (windowSize s6);
                st0 = \<lparr>sc_rand = randSeed fw 12345, sc_out = [], sc_dist = FLT_MAX, sc_tested = []\<rparr>;
                st = loop_z fw (mShiftDown s6) (mBounds s6) ray (mTime s6) st0;
                s7 = s6\<lparr>rand := sc_rand st, mInstances := sc_out st\<rparr>
            in Inr (if mShiftDown s7 \<and> sc_dist st < FLT_MAX
                    then s7\<lparr>mFocalPlane := sc_dist st\<rparr> else s7)))"

subsection \<open>What a tick computes, said directly\<close>

text \<open>The grid positions in the order the three loops visit them: \<open>x\<close> fastest, \<open>z\<close> slowest.\<close>

definition grid :: "(int \<times> int \<times> int) list" where
  "grid = concat (map (\<lambda>z. concat (map (\<lambda>y. map (\<lambda>x. (x, y, z)) [- 4 .. 4]) [- 4 .. 4])) [- 4 .. 4])"

text \<open>
  The values drawn from the generator for \<open>n\<close> instances in a row, starting from state
  \<open>r\<close>: for each instance its axis and the two numbers of line 259. The second component
  is the generator's state afterwards.
\<close>

primrec rand_draws ::
  "('cam, 'ray, 'rng, 'mat) cinder \<Rightarrow> nat \<Rightarrow> 'rng \<Rightarrow> (vec3 \<times> real \<times> real) list \<times> 'rng" where
  "rand_draws fw 0 r = ([], r)"
| "rand_draws fw (Suc n) r =
     (let (axis, r1) = randVec3 fw r;
          (a0, r2) = randFloat fw (- 180) 180 r1;
          (a1, r3) = randFloat fw 1 90 r2;
          (ds, r') = rand_draws fw n r3
      in ((axis, a0, a1) # ds, r'))"

text \<open>The matrix of lines 261 and 262 for a grid position and the values drawn for it.\<close>

definition instance_matrix ::
  "('cam, 'ray, 'rng, 'mat) cinder \<Rightarrow> real \<Rightarrow> int \<times> int \<times> int \<Rightarrow> vec3 \<times> real \<times> real \<Rightarrow> 'mat" where
  "instance_matrix fw time p d =
     (case p of (x, y, z) \<Rightarrow> case d of (axis, a0, a1) \<Rightarrow>
        mat_mul fw (translate fw (vscale (of_int x, of_int y, of_int z) 5))
                   (rotate fw (radians fw (a0 + a1 * time)) axis))"

text \<open>The matrices for a list of positions, the generator starting from \<open>r\<close>.\<close>

definition instance_matrices ::
  "('cam, 'ray, 'rng, 'mat) cinder \<Rightarrow> real \<Rightarrow> (int \<times> int \<times> int) list \<Rightarrow> 'rng \<Rightarrow> 'mat list" where
  "instance_matrices fw time ps r =
     map (\<lambda>(p, d). instance_matrix fw time p d) (zip ps (fst (rand_draws fw (length ps) r)))"

text \<open>
  The near-intersection distances (the value stored through \<^verbatim>\<open>min\<close>) of those spheres,
  among the bounding sphere transformed by each of the matrices \<open>ms\<close>, for which
  \<^verbatim>\<open>intersect\<close> returns more than 0.
\<close>

definition hit_dists ::
  "('cam, 'ray, 'rng, 'mat) cinder \<Rightarrow> sphere \<Rightarrow> 'ray \<Rightarrow> 'mat list \<Rightarrow> real list" where
  "hit_dists fw bounds ray ms =
     map (\<lambda>r. fst (snd r))
       (filter (\<lambda>r. fst r > 0) (map (\<lambda>m. intersect fw (transformed fw bounds m) ray) ms))"

text \<open>\<^verbatim>\<open>dist\<close> after the tests of lines 270 and 271 on the distances \<open>hs\<close>, from the value \<open>d\<close>.\<close>

definition nearest :: "real list \<Rightarrow> real \<Rightarrow> real" where
  "nearest hs d = fold (\<lambda>m d. if m < d then m else d) hs d"

text \<open>The camera after lines 233 to 238, the mouse ray of line 246, the matrices of a tick.\<close>

definition tick_camera :: "('cam, 'ray, 'rng, 'mat) cinder \<Rightarrow> ('cam, 'rng, 'mat) app \<Rightarrow> 'cam" where
  "tick_camera fw s =
     (let distance = clamp (getPivotDistance fw (mCamera s)) 5 45;
          target = getPivotPoint fw (mCamera s);
          eye = vsub target (vscale (getViewDirection fw (mCamera s)) distance)
      in setFov fw (lookAt fw (mCamera s) eye target) (mFoV s))"

definition tick_ray :: "('cam, 'ray, 'rng, 'mat) cinder \<Rightarrow> ('cam, 'rng, 'mat) app \<Rightarrow> 'ray" where
  "tick_ray fw s = generateRay fw (tick_camera fw s) (mMousePos s) (windowSize s)"

definition tick_matrices :: "('cam, 'ray, 'rng, 'mat) cinder \<Rightarrow> real \<Rightarrow> 'mat list" where
  "tick_matrices fw time = instance_matrices fw time grid (randSeed fw 12345)"

text \<open>The number a label such as \<open>''2.8''\<close> denotes: digits, a point, digits.\<close>

definition digit :: "char \<Rightarrow> nat" where
  "digit c = of_char c - 48"

definition decimal :: "string \<Rightarrow> real" where
  "decimal s =
     (let ip = takeWhile (\<lambda>c. c \<noteq> CHR ''.'') s;
          fp = drop 1 (dropWhile (\<lambda>c. c \<noteq> CHR ''.'') s)
      in real (foldl (\<lambda>a c. 10 * a + digit c) 0 ip)
         + real (foldl (\<lambda>a c. 10 * a + digit c) 0 fp) / 10 ^ length fp)"

section \<open>The per-frame update, \<^verbatim>\<open>update()\<close>\<close>

text \<open>
  The block of lines 173 to 205: the three framebuffers are created for the current
  window size. \<^verbatim>\<open>width >>= 2\<close> on an \<^verbatim>\<open>int\<close> is the division by 4 rounded down. An
  exception of \<^verbatim>\<open>gl::Fbo::create\<close> is not caught.
\<close>

definition resize_fbos ::
  "('cam, 'ray, 'rng, 'mat) cinder \<Rightarrow> ('cam, 'rng, 'mat) app \<Rightarrow> error + ('cam, 'rng, 'mat) app" where
  "resize_fbos fw s0 =
    (let s1 = s0\<lparr>mResized := False\<rparr>;
         width = fst (windowSize s1);
         height = snd (windowSize s1);
         source = \<lparr>fbo_width = width, fbo_height = height, fbo_samples = 16,
                   fbo_attachments = [(''GL_COLOR_ATTACHMENT0'', ''GL_RGBA16F''),
                                      (''GL_DEPTH_STENCIL_ATTACHMENT'', ''GL_DEPTH24_STENCIL8'')]\<rparr>
     in case createFbo fw source of
          Some e \<Rightarrow> Inl (UncaughtException e)
        | None \<Rightarrow>
           (let s2 = s1\<lparr>mFboSource := Some source\<rparr>;
                width = width div 4;
                blur0 = \<lparr>fbo_width = width, fbo_height = height, fbo_samples = 0,
                          fbo_attachments = [(''GL_COLOR_ATTACHMENT0'', ''GL_RGBA16F''),
                                             (''GL_COLOR_ATTACHMENT1'', ''GL_RGBA16F'')]\<rparr>
            in case createFbo fw blur0 of
                 Some e \<Rightarrow> Inl (UncaughtException e)
               | None \<Rightarrow>
                  (let s3 = s2\<lparr>mFboBlur0 := Some blur0\<rparr>;
                       height = height div 4;
                       blur1 = \<lparr>fbo_width = width, fbo_height = height, fbo_samples = 0,
                                 fbo_attachments = [(''GL_COLOR_ATTACHMENT0'', ''GL_RGBA16F''),
                                                    (''GL_COLOR_ATTACHMENT1'', ''GL_RGB16F'')]\<rparr>
                   in case createFbo fw blur1 of
                        Some e \<Rightarrow> Inl (UncaughtException e)
                      | None \<Rightarrow> Inr (s3\<lparr>mFboBlur1 := Some blur1\<rparr>))))"

text \<open>
  \<^verbatim>\<open>static const double timestep = 1.0 / 60.0\<close>, line 208: the quotient of the doubles 1
  and 60, rounded to a double.
\<close>

definition timestep :: double where
  "timestep = round_to_double (1 / 60)"

text \<open>The literal \<^verbatim>\<open>0.1\<close> of line 219: the double nearest to one tenth.\<close>

definition literal_0_1 :: double where
  "literal_0_1 = round_to_double (1 / 10)"

text \<open>
  The loop of lines 221 to 225, on the static \<^verbatim>\<open>accumulator\<close>. The fixed update is passed
  the number its \<^verbatim>\<open>double\<close> argument denotes. A loop that does not end (the accumulator
  infinite, or so large that subtracting \<open>timestep\<close> rounds back to it) has no result:
  \<open>None\<close>.
\<close>

partial_function (option) update_loop ::
  "('cam, 'ray, 'rng, 'mat) cinder \<Rightarrow> ('cam, 'rng, 'mat) app \<Rightarrow>
   (error + ('cam, 'rng, 'mat) app) option" where
  "update_loop fw s =
    (if dge (static_accumulator s) timestep then
       (case update_timestep fw (valof (if mPaused s then Finite 0 else timestep)) s of
          Inl e \<Rightarrow> Some (Inl e)
        | Inr s' \<Rightarrow> update_loop fw (s'\<lparr>static_accumulator := dsub (static_accumulator s') timestep\<rparr>))
     else Some (Inr s))"

text \<open>
  \<^verbatim>\<open>update()\<close>, lines 170 to 226. \<^verbatim>\<open>getElapsedSeconds()\<close> is read twice on the first
  call (once to initialise the static \<^verbatim>\<open>time\<close>, once for \<^verbatim>\<open>elapsed\<close>) and once on every
  later call: \<open>t_first\<close> is the reading that initialises the static, used on the first
  call only, and \<open>t_now\<close> the reading of line 215.
\<close>

definition update ::
  "('cam, 'ray, 'rng, 'mat) cinder \<Rightarrow> double \<Rightarrow> double \<Rightarrow> ('cam, 'rng, 'mat) app \<Rightarrow>
   (error + ('cam, 'rng, 'mat) app) option" where
  "update fw t_first t_now s0 =
    (case (if mResized s0 then resize_fbos fw s0 else Inr s0) of
       Inl e \<Rightarrow> Some (Inl e)
     | Inr s1 \<Rightarrow>
        (let time = (case static_time s1 of None \<Rightarrow> t_first | Some t \<Rightarrow> t);
             elapsed = dsub t_now time;
             s2 = s1\<lparr>static_time := Some (dadd time elapsed)\<rparr>;
             s3 = s2\<lparr>static_accumulator := dadd (static_accumulator s2) (math_min elapsed literal_0_1)\<rparr>
         in update_loop fw s3))"

section \<open>Loading the shaders, \<^verbatim>\<open>reload()\<close>\<close>

text \<open>A call of \<^verbatim>\<open>loadAsset\<close>: the path is noted, the result is the framework's.\<close>

definition load_asset ::
  "('cam, 'ray, 'rng, 'mat) cinder \<Rightarrow> string \<Rightarrow> ('cam, 'rng, 'mat) app \<Rightarrow>
   (string + string) \<times> ('cam, 'rng, 'mat) app" where
  "load_asset fw path s = (loadAsset fw path, s\<lparr>assetLog := assetLog s @ [path]\<rparr>)"

text \<open>
  \<^verbatim>\<open>gl::GlslProg::create\<close> on two assets, as in lines 458, 471, 482, 495, 505 and 516:
  the vertex asset is loaded, then the fragment asset, then the program is compiled and
  linked; the first exception ends the attempt. (C++ leaves the order of the two loads
  of lines 458, 471 and 482 open; they are taken in the order written.) The exceptions
  of the framework derive from \<^verbatim>\<open>std::exception\<close>, which is what the handlers of
  \<^verbatim>\<open>reload()\<close> catch; \<^verbatim>\<open>uniform\<close> and \<^verbatim>\<open>replaceGlslProg\<close> do not throw.
\<close>

definition create_prog ::
  "('cam, 'ray, 'rng, 'mat) cinder \<Rightarrow> string \<Rightarrow> string \<Rightarrow> (string \<times> string) list \<Rightarrow>
   ('cam, 'rng, 'mat) app \<Rightarrow> (string + glsl_prog) \<times> ('cam, 'rng, 'mat) app" where
  "create_prog fw vert frag defs s =
    (case load_asset fw vert s of
       (Inl e, s1) \<Rightarrow> (Inl e, s1)
     | (Inr v, s1) \<Rightarrow>
        (case load_asset fw frag s1 of
           (Inl e, s2) \<Rightarrow> (Inl e, s2)
         | (Inr f, s2) \<Rightarrow>
            (case compile fw v f defs of
               Some e \<Rightarrow> (Inl e, s2)
             | None \<Rightarrow> (Inr \<lparr>vertex_src = v, fragment_src = f, prog_defines = defs, uniforms = []\<rparr>, s2))))"

definition print_console :: "string \<Rightarrow> ('cam, 'rng, 'mat) app \<Rightarrow> ('cam, 'rng, 'mat) app" where
  "print_console line s = s\<lparr>console := console s @ [line]\<rparr>"

text \<open>Lines 456 to 467.\<close>

definition reload_teapots ::
  "('cam, 'ray, 'rng, 'mat) cinder \<Rightarrow> ('cam, 'rng, 'mat) app \<Rightarrow> ('cam, 'rng, 'mat) app" where
  "reload_teapots fw s =
    (if mTeapots s \<noteq> None then
       (case create_prog fw ''instanced.vert'' ''scene.frag'' [] s of
          (Inr glsl, s1) \<Rightarrow>
            s1\<lparr>mTeapots := Some (uniform ''uMaxCoCRadiusPixels'' (UInt (mMaxCoCRadiusPixels s1))
                                 (uniform ''uTex'' (UInt 0) glsl))\<rparr>
        | (Inl e, s1) \<Rightarrow> print_console (''Failed to load teapots shader: '' @ e) s1)
     else s)"

text \<open>Lines 469 to 478.\<close>

definition reload_spheres ::
  "('cam, 'ray, 'rng, 'mat) cinder \<Rightarrow> ('cam, 'rng, 'mat) app \<Rightarrow> ('cam, 'rng, 'mat) app" where
  "reload_spheres fw s =
    (if mSpheres s \<noteq> None then
       (case create_prog fw ''instanced.vert'' ''debug.frag'' [] s of
          (Inr glsl, s1) \<Rightarrow> s1\<lparr>mSpheres := Some glsl\<rparr>
        | (Inl e, s1) \<Rightarrow> print_console (''Failed to load spheres shader: '' @ e) s1)
     else s)"

text \<open>Lines 480 to 491.\<close>

definition reload_background ::
  "('cam, 'ray, 'rng, 'mat) cinder \<Rightarrow> ('cam, 'rng, 'mat) app \<Rightarrow> ('cam, 'rng, 'mat) app" where
  "reload_background fw s =
    (if mBackground s \<noteq> None then
       (case create_prog fw ''single.vert'' ''scene.frag'' [] s of
          (Inr glsl, s1) \<Rightarrow>
            s1\<lparr>mBackground := Some (uniform ''uMaxCoCRadiusPixels'' (UInt (mMaxCoCRadiusPixels s1))
                                    (uniform ''uTex'' (UInt 0) glsl))\<rparr>
        | (Inl e, s1) \<Rightarrow> print_console (''Failed to load background shader: '' @ e) s1)
     else s)"

text \<open>Lines 494 to 502.\<close>

definition reload_blur0 ::
  "('cam, 'ray, 'rng, 'mat) cinder \<Rightarrow> ('cam, 'rng, 'mat) app \<Rightarrow> ('cam, 'rng, 'mat) app" where
  "reload_blur0 fw s =
    (case create_prog fw ''blur.vert'' ''blur.frag'' [(''HORIZONTAL'', ''1'')] s of
       (Inr glsl, s1) \<Rightarrow> s1\<lparr>mGlslBlur0 := Some (uniform ''uBlurSource'' (UInt 0) glsl)\<rparr>
     | (Inl e, s1) \<Rightarrow> print_console (''Failed to load horizontal blur shader: '' @ e) s1)"

text \<open>Lines 504 to 513.\<close>

definition reload_blur1 ::
  "('cam, 'ray, 'rng, 'mat) cinder \<Rightarrow> ('cam, 'rng, 'mat) app \<Rightarrow> ('cam, 'rng, 'mat) app" where
  "reload_blur1 fw s =
    (case create_prog fw ''blur.vert'' ''blur.frag'' [(''HORIZONTAL'', ''0'')] s of
       (Inr glsl, s1) \<Rightarrow>
         s1\<lparr>mGlslBlur1 := Some (uniform ''uBlurSource'' (UInt 1) (uniform ''uNearSource'' (UInt 0) glsl))\<rparr>
     | (Inl e, s1) \<Rightarrow> print_console (''Failed to load vertical blur shader: '' @ e) s1)"

text \<open>Lines 515 to 526.\<close>

definition reload_composite ::
  "('cam, 'ray, 'rng, 'mat) cinder \<Rightarrow> ('cam, 'rng, 'mat) app \<Rightarrow> ('cam, 'rng, 'mat) app" where
  "reload_composite fw s =
    (case create_prog fw ''composite.vert'' ''composite.frag'' [] s of
       (Inr glsl, s1) \<Rightarrow>
         s1\<lparr>mGlslComposite := Some (uniform ''uOffset'' (UVec2 (0, 0))
                                    (uniform ''uNearSource'' (UInt 1)
                                    (uniform ''uBlurSource'' (UInt 2)
                                    (uniform ''uInputSource'' (UInt 0) glsl))))\<rparr>
     | (Inl e, s1) \<Rightarrow> print_console (''Failed to load composite shader: '' @ e) s1)"

text \<open>\<^verbatim>\<open>reload()\<close>, lines 454 to 527: the six blocks in turn.\<close>

definition reload ::
  "('cam, 'ray, 'rng, 'mat) cinder \<Rightarrow> ('cam, 'rng, 'mat) app \<Rightarrow> ('cam, 'rng, 'mat) app" where
  "reload fw s =
     reload_composite fw (reload_blur1 fw (reload_blur0 fw
       (reload_background fw (reload_spheres fw (reload_teapots fw s)))))"

section \<open>Construction, \<^verbatim>\<open>setup()\<close> and the input callbacks\<close>

text \<open>
  The constructor, lines 16 to 31. The members it does not initialise and the state the
  framework owns are arguments.
\<close>

definition DepthOfFieldApp ::
  "'cam \<Rightarrow> sphere \<Rightarrow> vec2 \<Rightarrow> 'rng \<Rightarrow> ivec2 \<Rightarrow> ('cam, 'rng, 'mat) app" where
  "DepthOfFieldApp cam bounds mouse rng window =
    \<lparr>mCamera = cam, mBounds = bounds, mInstances = [],
     mTeapots = None, mBackground = None, mSpheres = None,
     mTexGold = None, mTexClay = None,
     mFboSource = None, mFboBlur0 = None, mFboBlur1 = None,
     mGlslBlur0 = None, mGlslBlur1 = None, mGlslComposite = None,
     mParams = [],
     mAperture = 1, mFocalStop = 8, mFocalPlane = 10, mFocalLength = 1, mFoV = 25,
     mMaxCoCRadiusPixels = 8, mFarRadiusRescale = 1, mDebugOption = 0,
     mTime = 0,
     mPaused = False, mResized = True, mShiftDown = False, mShowBounds = False,
     mMousePos = mouse,
     static_time = None, static_accumulator = Finite 0,
     rand = rng, windowSize = window, fullScreen = False, quitRequested = False,
     console = [], assetLog = []\<rparr>"

text \<open>\<^verbatim>\<open>prepare\<close>, line 85: the window size asked for.\<close>

definition prepare :: ivec2 where
  "prepare = (960, 540)"

text \<open>The labels of the F-stop choice, line 150.\<close>

definition fstop_labels :: "string list" where
  "fstop_labels = [''0.7'', ''0.8'', ''1.0'', ''1.2'', ''1.4'', ''1.7'', ''2.0'', ''2.4'', ''2.8'',
     ''3.3'', ''4.0'', ''4.8'', ''5.6'', ''6.7'', ''8.0'', ''9.5'', ''11.0'']"

text \<open>The parameter panel built in lines 146 to 162.\<close>

definition params_panel :: "param list" where
  "params_panel =
    [NumParam ''Focal Distance'' (Some (0.1, 100, 0.1)) False,
     EnumParam ''F-stop'' fstop_labels,
     NumParam ''Field of View'' (Some (5, 90, 1)) False,
     Separator,
     NumParam ''Aperture'' None True,
     NumParam ''Focal Length'' None True,
     Separator,
     NumParam ''Max. CoC Radius'' (Some (1, 20, 1)) False,
     NumParam ''Far Radius Rescale'' (Some (0.1, 20, 0.1)) False,
     EnumParam ''Debug Option'' [''Off'', ''Show CoC'', ''Show Region'', ''Show Near'',
       ''Show Blurry'', ''Show Input'', ''Show Mid & Far'', ''Show Signed CoC''],
     Separator,
     Button ''Pause'',
     Button ''Toggle Bounds'',
     ParamText ''Hold SHIFT to auto-focus.'']"

text \<open>
  A texture of lines 94 and 95: the asset is loaded and decoded; an exception of either
  is not caught.
\<close>

definition load_texture ::
  "('cam, 'ray, 'rng, 'mat) cinder \<Rightarrow> string \<Rightarrow> ('cam, 'rng, 'mat) app \<Rightarrow>
   error + string \<times> ('cam, 'rng, 'mat) app" where
  "load_texture fw path s =
    (case load_asset fw path s of
       (Inl e, s1) \<Rightarrow> Inl (UncaughtException e)
     | (Inr data, s1) \<Rightarrow>
        (case loadImage fw data of
           Inl e \<Rightarrow> Inl (UncaughtException e)
         | Inr img \<Rightarrow> Inr (img, s1)))"

text \<open>The body of the loops of lines 99 to 111, on the generator and the vector \<^verbatim>\<open>matrices\<close>.\<close>

definition setup_step ::
  "('cam, 'ray, 'rng, 'mat) cinder \<Rightarrow> int \<times> int \<times> int \<Rightarrow> 'rng \<times> 'mat list \<Rightarrow> 'rng \<times> 'mat list" where
  "setup_step fw p st =
    (case p of (x, y, z) \<Rightarrow> case st of (r, matrices) \<Rightarrow>
     let (axis, r1) = randVec3 fw r;
         (angle, r2) = randFloat fw (- 180) 180 r1;
         transform = mat_mul fw (translate fw (vscale (of_int x, of_int y, of_int z) 5))
                                (rotate fw (radians fw angle) axis)
     in (r2, matrices @ [transform]))"

definition setup_matrices ::
  "('cam, 'ray, 'rng, 'mat) cinder \<Rightarrow> 'rng \<Rightarrow> 'rng \<times> 'mat list" where
  "setup_matrices fw r =
     fold (\<lambda>z. fold (\<lambda>y. fold (\<lambda>x. setup_step fw (x, y, z)) [- 4 .. 4]) [- 4 .. 4]) [- 4 .. 4] (r, [])"

text \<open>
  \<^verbatim>\<open>setup()\<close>, lines 88 to 168. The meshes are not modelled; the three batches are
  created with the stock shader \<^verbatim>\<open>glsl\<close>.
\<close>

definition setup_app ::
  "('cam, 'ray, 'rng, 'mat) cinder \<Rightarrow> ('cam, 'rng, 'mat) app \<Rightarrow> error + ('cam, 'rng, 'mat) app" where
  "setup_app fw s0 =
    (let glsl = stockShader fw in
     case load_texture fw ''gold.png'' s0 of
       Inl e \<Rightarrow> Inl e
     | Inr (gold, s1) \<Rightarrow>
        (case load_texture fw ''clay.png'' (s1\<lparr>mTexGold := Some gold\<rparr>) of
           Inl e \<Rightarrow> Inl e
         | Inr (clay, s2) \<Rightarrow>
            (let s3 = s2\<lparr>mTexClay := Some clay\<rparr>;
                 (r, matrices) = setup_matrices fw (rand s3);
                 s4 = s3\<lparr>rand := r, mInstances := matrices\<rparr>;
                 (centre, extents) = teapotBounds fw;
                 s5 = s4\<lparr>mBounds := (centre, 0.5 * vlength extents)\<rparr>;
                 s6 = s5\<lparr>mTeapots := Some glsl\<rparr>;
                 s7 = s6\<lparr>mSpheres := Some glsl\<rparr>;
                 s8 = s7\<lparr>mBackground := Some glsl\<rparr>;
                 s9 = s8\<lparr>mCamera := setPerspective fw (mCamera s8) 30 1 0.05 100\<rparr>;
                 s10 = s9\<lparr>mCamera := lookAt fw (mCamera s9) (1, 2, 5) (0, 0, 0)\<rparr>;
                 s11 = s10\<lparr>mParams := params_panel\<rparr>
             in Inr (reload fw s11))))"

text \<open>The key and mouse callbacks, lines 404 to 452 and line 45.\<close>

definition keyDown ::
  "('cam, 'ray, 'rng, 'mat) cinder \<Rightarrow> key_event \<Rightarrow> ('cam, 'rng, 'mat) app \<Rightarrow> ('cam, 'rng, 'mat) app" where
  "keyDown fw event s0 =
    (let s = s0\<lparr>mShiftDown := key_isShiftDown event\<rparr> in
     case key_getCode event of
       KEY_ESCAPE \<Rightarrow> (if fullScreen s then s\<lparr>fullScreen := False\<rparr> else s\<lparr>quitRequested := True\<rparr>)
     | KEY_SPACE \<Rightarrow> s\<lparr>mPaused := \<not> mPaused s\<rparr>
     | KEY_f \<Rightarrow> s\<lparr>fullScreen := \<not> fullScreen s\<rparr>
     | KEY_r \<Rightarrow> reload fw s
     | KEY_other c \<Rightarrow> s)"

definition keyUp :: "key_event \<Rightarrow> ('cam, 'rng, 'mat) app \<Rightarrow> ('cam, 'rng, 'mat) app" where
  "keyUp event s = s\<lparr>mShiftDown := key_isShiftDown event\<rparr>"

definition mouseMove :: "mouse_event \<Rightarrow> ('cam, 'rng, 'mat) app \<Rightarrow> ('cam, 'rng, 'mat) app" where
  "mouseMove event s =
     s\<lparr>mShiftDown := mouse_isShiftDown event,
       mMousePos := (of_int (fst (mouse_getPos event)), of_int (snd (mouse_getPos event)))\<rparr>"

definition mouseDown ::
  "('cam, 'ray, 'rng, 'mat) cinder \<Rightarrow> mouse_event \<Rightarrow> ('cam, 'rng, 'mat) app \<Rightarrow> ('cam, 'rng, 'mat) app" where
  "mouseDown fw event s = s\<lparr>mCamera := cameraUi_mouseDown fw (mCamera s) event\<rparr>"

definition mouseDrag ::
  "('cam, 'ray, 'rng, 'mat) cinder \<Rightarrow> mouse_event \<Rightarrow> ('cam, 'rng, 'mat) app \<Rightarrow> ('cam, 'rng, 'mat) app" where
  "mouseDrag fw event s =
     s\<lparr>mCamera := cameraUi_mouseDrag fw (mCamera s) event,
       mShiftDown := mouse_isShiftDown event,
       mMousePos := (of_int (fst (mouse_getPos event)), of_int (snd (mouse_getPos event)))\<rparr>"

definition resize ::
  "('cam, 'ray, 'rng, 'mat) cinder \<Rightarrow> ('cam, 'rng, 'mat) app \<Rightarrow> ('cam, 'rng, 'mat) app" where
  "resize fw s =
     s\<lparr>mCamera := setAspectRatio fw (mCamera s) (of_int (fst (windowSize s)) / of_int (snd (windowSize s))),
       mResized := True\<rparr>"

section \<open>Drawing, \<^verbatim>\<open>draw()\<close>\<close>

text \<open>
  \<^verbatim>\<open>draw()\<close> changes no member; what it does is the sequence of calls it makes on the
  rendering interface. Framebuffers, textures, batches and programs are named by the
  member they are held in. A scoped object (\<^verbatim>\<open>gl::ScopedFramebuffer\<close> and the like) is a
  call when it is constructed and an \<open>EndScope\<close> when its block ends. Going through a
  null reference is undefined in C++; the model ends there with \<open>NullPointer\<close> and the
  name of the member.
\<close>

datatype fb = Window | FboSource | FboBlur0 | FboBlur1

datatype tex = TexGold | TexClay | ColorTexture fb | Texture2d fb nat

datatype batch = Teapots | Background | Spheres

datatype shader = BatchProg batch | GlslBlur0 | GlslBlur1 | GlslComposite

datatype gl_call =
    Clear "real \<times> real \<times> real \<times> real"
  | ScopedFramebuffer fb
  | ScopedViewport ivec2
  | ScopedMatrices
  | SetMatrices
  | SetMatricesWindow ivec2
  | ScopedDepth bool
  | ScopedBlend bool
  | ScopedBlendPremult
  | ScopedFaceCulling bool string
  | ScopedColor real real real
  | ScopedTextureBind tex nat
  | ScopedGlslProg shader
  | Uniform shader string uniform_value
  | DrawInstanced batch int
  | Draw batch
  | DrawSolidRect ivec2
  | EndScope
  | ParamsDraw

definition fbo_size :: "fbo \<Rightarrow> ivec2" where
  "fbo_size f = (fbo_width f, fbo_height f)"

text \<open>The four uniforms set on a scene program, lines 309 to 312 and 324 to 327.\<close>

definition scene_uniforms :: "batch \<Rightarrow> ('cam, 'rng, 'mat) app \<Rightarrow> gl_call list" where
  "scene_uniforms b s =
    [Uniform (BatchProg b) ''uAperture'' (UFloat (mAperture s)),
     Uniform (BatchProg b) ''uFocalDistance'' (UFloat (mFocalPlane s)),
     Uniform (BatchProg b) ''uFocalLength'' (UFloat (mFocalLength s)),
     Uniform (BatchProg b) ''uMaxCoCRadiusPixels'' (UInt (mMaxCoCRadiusPixels s))]"

text \<open>Lines 290 to 337: the scene into \<^verbatim>\<open>mFboSource\<close>.\<close>

definition draw_scene :: "('cam, 'rng, 'mat) app \<Rightarrow> error + gl_call list" where
  "draw_scene s =
    (case mFboSource s of None \<Rightarrow> Inl (NullPointer ''mFboSource'') | Some source \<Rightarrow>
     case mTexGold s of None \<Rightarrow> Inl (NullPointer ''mTexGold'') | Some gold \<Rightarrow>
     case mTeapots s of None \<Rightarrow> Inl (NullPointer ''mTeapots'') | Some teapots \<Rightarrow>
     case mTexClay s of None \<Rightarrow> Inl (NullPointer ''mTexClay'') | Some clay \<Rightarrow>
     case mBackground s of None \<Rightarrow> Inl (NullPointer ''mBackground'') | Some background \<Rightarrow>
     if mShowBounds s \<and> mSpheres s = None then Inl (NullPointer ''mSpheres'')
     else Inr
      ([ScopedFramebuffer FboSource, ScopedViewport (fbo_size source), Clear (0, 0, 0, 0),
        ScopedMatrices, SetMatrices, ScopedDepth True, ScopedBlend False]
       @ [ScopedFaceCulling True ''GL_BACK'', ScopedColor 1 1 1, ScopedTextureBind TexGold 0,
          ScopedGlslProg (BatchProg Teapots)]
       @ scene_uniforms Teapots s
       @ [DrawInstanced Teapots (9 * 9 * 9), EndScope, EndScope, EndScope, EndScope]
       @ [ScopedFaceCulling True ''GL_FRONT'', ScopedColor 1 1 1, ScopedTextureBind TexClay 0,
          ScopedGlslProg (BatchProg Background)]
       @ scene_uniforms Background s
       @ [Draw Background, EndScope, EndScope, EndScope, EndScope]
       @ (if mShowBounds s
          then [ScopedColor 0 1 1, DrawInstanced Spheres (9 * 9 * 9), EndScope] else [])
       @ [EndScope, EndScope, EndScope, EndScope, EndScope]))"

text \<open>Lines 340 to 359: horizontal blur and downsampling into \<^verbatim>\<open>mFboBlur[0]\<close>.\<close>

definition draw_blur0 :: "('cam, 'rng, 'mat) app \<Rightarrow> error + gl_call list" where
  "draw_blur0 s =
    (case mFboBlur0 s of None \<Rightarrow> Inl (NullPointer ''mFboBlur[0]'') | Some blur0 \<Rightarrow>
     case mFboSource s of None \<Rightarrow> Inl (NullPointer ''mFboSource'') | Some source \<Rightarrow>
     case mGlslBlur0 s of None \<Rightarrow> Inl (NullPointer ''mGlslBlur[0]'') | Some glsl \<Rightarrow>
     Inr [ScopedFramebuffer FboBlur0, ScopedViewport (fbo_size blur0), Clear (0, 0, 0, 0),
          ScopedMatrices, SetMatricesWindow (fbo_size blur0), ScopedColor 1 1 1, ScopedBlendPremult,
          ScopedTextureBind (ColorTexture FboSource) 0, ScopedGlslProg GlslBlur0,
          Uniform GlslBlur0 ''uMaxCoCRadiusPixels'' (UInt (mMaxCoCRadiusPixels s)),
          Uniform GlslBlur0 ''uNearBlurRadiusPixels'' (UInt (mMaxCoCRadiusPixels s)),
          Uniform GlslBlur0 ''uInvNearBlurRadiusPixels'' (UFloat (1 / of_int (mMaxCoCRadiusPixels s))),
          DrawSolidRect (fbo_size blur0),
          EndScope, EndScope, EndScope, EndScope, EndScope, EndScope, EndScope])"

text \<open>Lines 362 to 382: vertical blur into \<^verbatim>\<open>mFboBlur[1]\<close>.\<close>

definition draw_blur1 :: "('cam, 'rng, 'mat) app \<Rightarrow> error + gl_call list" where
  "draw_blur1 s =
    (case mFboBlur1 s of None \<Rightarrow> Inl (NullPointer ''mFboBlur[1]'') | Some blur1 \<Rightarrow>
     case mFboBlur0 s of None \<Rightarrow> Inl (NullPointer ''mFboBlur[0]'') | Some blur0 \<Rightarrow>
     case mGlslBlur1 s of None \<Rightarrow> Inl (NullPointer ''mGlslBlur[1]'') | Some glsl \<Rightarrow>
     Inr [ScopedFramebuffer FboBlur1, ScopedViewport (fbo_size blur1), Clear (0, 0, 0, 0),
          ScopedMatrices, SetMatricesWindow (fbo_size blur1), ScopedColor 1 1 1, ScopedBlendPremult,
          ScopedTextureBind (Texture2d FboBlur0 0) 0, ScopedTextureBind (Texture2d FboBlur0 1) 1,
          ScopedGlslProg GlslBlur1,
          Uniform GlslBlur1 ''uMaxCoCRadiusPixels'' (UInt (mMaxCoCRadiusPixels s)),
          Uniform GlslBlur1 ''uNearBlurRadiusPixels'' (UInt (mMaxCoCRadiusPixels s)),
          DrawSolidRect (fbo_size blur1),
          EndScope, EndScope, EndScope, EndScope, EndScope, EndScope, EndScope, EndScope])"

text \<open>Lines 385 to 398: compositing to the window.\<close>

definition draw_composite :: "('cam, 'rng, 'mat) app \<Rightarrow> error + gl_call list" where
  "draw_composite s =
    (case mFboSource s of None \<Rightarrow> Inl (NullPointer ''mFboSource'') | Some source \<Rightarrow>
     case mFboBlur1 s of None \<Rightarrow> Inl (NullPointer ''mFboBlur[1]'') | Some blur1 \<Rightarrow>
     case mGlslComposite s of None \<Rightarrow> Inl (NullPointer ''mGlslComposite'') | Some glsl \<Rightarrow>
     Inr [ScopedColor 1 1 1, ScopedBlend False,
          ScopedTextureBind (ColorTexture FboSource) 0,
          ScopedTextureBind (Texture2d FboBlur1 0) 1, ScopedTextureBind (Texture2d FboBlur1 1) 2,
          ScopedGlslProg GlslComposite,
          Uniform GlslComposite ''uInputSourceInvSize''
            (UVec2 (1 / of_int (fbo_width source), 1 / of_int (fbo_height source))),
          Uniform GlslComposite ''uFarRadiusRescale'' (UFloat (mFarRadiusRescale s)),
          Uniform GlslComposite ''uDebugOption'' (UInt (mDebugOption s)),
          DrawSolidRect (windowSize s),
          EndScope, EndScope, EndScope, EndScope, EndScope, EndScope])"

text \<open>\<^verbatim>\<open>draw()\<close>, lines 285 to 402.\<close>

definition draw :: "('cam, 'rng, 'mat) app \<Rightarrow> error + gl_call list" where
  "draw s =
    (case draw_scene s of Inl e \<Rightarrow> Inl e | Inr scene \<Rightarrow>
     case draw_blur0 s of Inl e \<Rightarrow> Inl e | Inr blur0 \<Rightarrow>
     case draw_blur1 s of Inl e \<Rightarrow> Inl e | Inr blur1 \<Rightarrow>
     case draw_composite s of Inl e \<Rightarrow> Inl e | Inr composite \<Rightarrow>
     Inr (Clear (0, 0, 0, 1) # scene @ blur0 @ blur1 @ composite @ [ParamsDraw]))"

subsection \<open>Reading a call sequence as render passes\<close>

text \<open>
  The bindings in force at a call are those of the scoped objects alive there, the
  innermost first. A pass is a draw call with the framebuffer it renders into, the
  textures bound (in the order they were bound) and the program it uses; a batch draws
  with its own program.
\<close>

fun is_scoped :: "gl_call \<Rightarrow> bool" where
  "is_scoped (ScopedFramebuffer f) = True"
| "is_scoped (ScopedViewport v) = True"
| "is_scoped ScopedMatrices = True"
| "is_scoped (ScopedDepth b) = True"
| "is_scoped (ScopedBlend b) = True"
| "is_scoped ScopedBlendPremult = True"
| "is_scoped (ScopedFaceCulling b m) = True"
| "is_scoped (ScopedColor r g b) = True"
| "is_scoped (ScopedTextureBind t u) = True"
| "is_scoped (ScopedGlslProg p) = True"
| "is_scoped c = False"

fun bound_fb :: "gl_call list \<Rightarrow> fb" where
  "bound_fb [] = Window"
| "bound_fb (ScopedFramebuffer f # live) = f"
| "bound_fb (c # live) = bound_fb live"

fun bound_prog :: "gl_call list \<Rightarrow> shader option" where
  "bound_prog [] = None"
| "bound_prog (ScopedGlslProg p # live) = Some p"
| "bound_prog (c # live) = bound_prog live"

fun bound_textures :: "gl_call list \<Rightarrow> (nat \<times> tex) list" where
  "bound_textures [] = []"
| "bound_textures (ScopedTextureBind t u # live) = bound_textures live @ [(u, t)]"
| "bound_textures (c # live) = bound_textures live"

datatype drawn = DrawnInstanced batch int | DrawnBatch batch | DrawnRect

datatype pass = Pass drawn fb "(nat \<times> tex) list" "shader option"

fun passes_from :: "gl_call list \<Rightarrow> gl_call list \<Rightarrow> pass list" where
  "passes_from live [] = []"
| "passes_from live (EndScope # cs) = passes_from (tl live) cs"
| "passes_from live (DrawInstanced b n # cs) =
     Pass (DrawnInstanced b n) (bound_fb live) (bound_textures live) (Some (BatchProg b)) # passes_from live cs"
| "passes_from live (Draw b # cs) =
     Pass (DrawnBatch b) (bound_fb live) (bound_textures live) (Some (BatchProg b)) # passes_from live cs"
| "passes_from live (DrawSolidRect r # cs) =
     Pass DrawnRect (bound_fb live) (bound_textures live) (bound_prog live) # passes_from live cs"
| "passes_from live (c # cs) = (if is_scoped c then passes_from (c # live) cs else passes_from live cs)"

definition passes :: "gl_call list \<Rightarrow> pass list" where
  "passes cs = passes_from [] cs"

section \<open>Notions used in the statements\<close>

text \<open>The fixed update invoked \<open>n\<close> times in a row, as the loop of lines 221 to 225 invokes it.\<close>

fun repeat_tick ::
  "('cam, 'ray, 'rng, 'mat) cinder \<Rightarrow> nat \<Rightarrow> ('cam, 'rng, 'mat) app \<Rightarrow> error + ('cam, 'rng, 'mat) app" where
  "repeat_tick fw 0 s = Inr s"
| "repeat_tick fw (Suc n) s =
     (case update_timestep fw (valof (if mPaused s then Finite 0 else timestep)) s of
        Inl e \<Rightarrow> Inl e
      | Inr s' \<Rightarrow> repeat_tick fw n s')"


text \<open>
  The references \<^verbatim>\<open>draw()\<close> goes through: the three framebuffers, the two textures,
  the teapot and background batches, the sphere batch when the bounds are shown, and the
  three post-processing programs.
\<close>

definition resources_ready :: "('cam, 'rng, 'mat) app \<Rightarrow> bool" where
  "resources_ready s =
    (mFboSource s \<noteq> None \<and> mFboBlur0 s \<noteq> None \<and> mFboBlur1 s \<noteq> None
     \<and> mTexGold s \<noteq> None \<and> mTexClay s \<noteq> None
     \<and> mTeapots s \<noteq> None \<and> mBackground s \<noteq> None
     \<and> (if mShowBounds s then mSpheres s \<noteq> None else True)
     \<and> mGlslBlur0 s \<noteq> None \<and> mGlslBlur1 s \<noteq> None \<and> mGlslComposite s \<noteq> None)"

text \<open>The instanced draw calls of a call sequence, with their instance counts.\<close>

fun instanced_draws :: "gl_call list \<Rightarrow> (batch \<times> int) list" where
  "instanced_draws [] = []"
| "instanced_draws (DrawInstanced b n # cs) = (b, n) # instanced_draws cs"
| "instanced_draws (c # cs) = instanced_draws cs"

text \<open>The render passes of \<^verbatim>\<open>draw()\<close>, in order.\<close>

definition scene_passes :: "bool \<Rightarrow> pass list" where
  "scene_passes showBounds =
     [Pass (DrawnInstanced Teapots 729) FboSource [(0, TexGold)] (Some (BatchProg Teapots)),
      Pass (DrawnBatch Background) FboSource [(0, TexClay)] (Some (BatchProg Background))]
     @ (if showBounds then [Pass (DrawnInstanced Spheres 729) FboSource [] (Some (BatchProg Spheres))]
        else [])"

definition post_passes :: "pass list" where
  "post_passes =
     [Pass DrawnRect FboBlur0 [(0, ColorTexture FboSource)] (Some GlslBlur0),
      Pass DrawnRect FboBlur1 [(0, Texture2d FboBlur0 0), (1, Texture2d FboBlur0 1)] (Some GlslBlur1),
      Pass DrawnRect Window
        [(0, ColorTexture FboSource), (1, Texture2d FboBlur1 0), (2, Texture2d FboBlur1 1)]
        (Some GlslComposite)]"

text \<open>
  The six blocks of \<^verbatim>\<open>reload()\<close> differ in the member they assign, the assets and
  definitions they build from, the uniforms they set and the name in their message. A
  program is named by the \<open>shader\<close> it serves in \<^verbatim>\<open>draw()\<close>.
\<close>

definition reload_order :: "shader list" where
  "reload_order = [BatchProg Teapots, BatchProg Spheres, BatchProg Background,
                   GlslBlur0, GlslBlur1, GlslComposite]"

fun slot :: "shader \<Rightarrow> ('cam, 'rng, 'mat) app \<Rightarrow> glsl_prog option" where
  "slot (BatchProg Teapots) s = mTeapots s"
| "slot (BatchProg Spheres) s = mSpheres s"
| "slot (BatchProg Background) s = mBackground s"
| "slot GlslBlur0 s = mGlslBlur0 s"
| "slot GlslBlur1 s = mGlslBlur1 s"
| "slot GlslComposite s = mGlslComposite s"

fun set_slot :: "shader \<Rightarrow> glsl_prog option \<Rightarrow> ('cam, 'rng, 'mat) app \<Rightarrow> ('cam, 'rng, 'mat) app" where
  "set_slot (BatchProg Teapots) p s = s\<lparr>mTeapots := p\<rparr>"
| "set_slot (BatchProg Spheres) p s = s\<lparr>mSpheres := p\<rparr>"
| "set_slot (BatchProg Background) p s = s\<lparr>mBackground := p\<rparr>"
| "set_slot GlslBlur0 p s = s\<lparr>mGlslBlur0 := p\<rparr>"
| "set_slot GlslBlur1 p s = s\<lparr>mGlslBlur1 := p\<rparr>"
| "set_slot GlslComposite p s = s\<lparr>mGlslComposite := p\<rparr>"

text \<open>A batch's program is built only if the batch exists (lines 456, 469, 480).\<close>

fun attempted :: "shader \<Rightarrow> ('cam, 'rng, 'mat) app \<Rightarrow> bool" where
  "attempted (BatchProg b) s = (slot (BatchProg b) s \<noteq> None)"
| "attempted st s = True"

fun stage_assets :: "shader \<Rightarrow> string \<times> string \<times> (string \<times> string) list" where
  "stage_assets (BatchProg Teapots) = (''instanced.vert'', ''scene.frag'', [])"
| "stage_assets (BatchProg Spheres) = (''instanced.vert'', ''debug.frag'', [])"
| "stage_assets (BatchProg Background) = (''single.vert'', ''scene.frag'', [])"
| "stage_assets GlslBlur0 = (''blur.vert'', ''blur.frag'', [(''HORIZONTAL'', ''1'')])"
| "stage_assets GlslBlur1 = (''blur.vert'', ''blur.frag'', [(''HORIZONTAL'', ''0'')])"
| "stage_assets GlslComposite = (''composite.vert'', ''composite.frag'', [])"

fun stage_label :: "shader \<Rightarrow> string" where
  "stage_label (BatchProg Teapots) = ''teapots''"
| "stage_label (BatchProg Spheres) = ''spheres''"
| "stage_label (BatchProg Background) = ''background''"
| "stage_label GlslBlur0 = ''horizontal blur''"
| "stage_label GlslBlur1 = ''vertical blur''"
| "stage_label GlslComposite = ''composite''"

definition failure_message :: "shader \<Rightarrow> string \<Rightarrow> string" where
  "failure_message st e = ''Failed to load '' @ stage_label st @ '' shader: '' @ e"

fun configure :: "shader \<Rightarrow> int \<Rightarrow> glsl_prog \<Rightarrow> glsl_prog" where
  "configure (BatchProg Teapots) coc g =
     uniform ''uMaxCoCRadiusPixels'' (UInt coc) (uniform ''uTex'' (UInt 0) g)"
| "configure (BatchProg Spheres) coc g = g"
| "configure (BatchProg Background) coc g =
     uniform ''uMaxCoCRadiusPixels'' (UInt coc) (uniform ''uTex'' (UInt 0) g)"
| "configure GlslBlur0 coc g = uniform ''uBlurSource'' (UInt 0) g"
| "configure GlslBlur1 coc g = uniform ''uBlurSource'' (UInt 1) (uniform ''uNearSource'' (UInt 0) g)"
| "configure GlslComposite coc g =
     uniform ''uOffset'' (UVec2 (0, 0)) (uniform ''uNearSource'' (UInt 1)
       (uniform ''uBlurSource'' (UInt 2) (uniform ''uInputSource'' (UInt 0) g)))"

text \<open>What building a program yields, and the assets it asks for, in a given framework.\<close>

definition build_outcome ::
  "('cam, 'ray, 'rng, 'mat) cinder \<Rightarrow> string \<times> string \<times> (string \<times> string) list \<Rightarrow> string + glsl_prog" where
  "build_outcome fw a =
    (case a of (vert, frag, defs) \<Rightarrow>
     case loadAsset fw vert of Inl e \<Rightarrow> Inl e | Inr v \<Rightarrow>
     case loadAsset fw frag of Inl e \<Rightarrow> Inl e | Inr f \<Rightarrow>
     case compile fw v f defs of Some e \<Rightarrow> Inl e
     | None \<Rightarrow> Inr \<lparr>vertex_src = v, fragment_src = f, prog_defines = defs, uniforms = []\<rparr>)"

definition build_requests ::
  "('cam, 'ray, 'rng, 'mat) cinder \<Rightarrow> string \<times> string \<times> (string \<times> string) list \<Rightarrow> string list" where
  "build_requests fw a =
    (case a of (vert, frag, defs) \<Rightarrow>
     case loadAsset fw vert of Inl e \<Rightarrow> [vert] | Inr v \<Rightarrow> [vert, frag])"

text \<open>
  One block of \<^verbatim>\<open>reload()\<close>, said once for any of the six programs. Each of the six
  blocks is shown below to be this step for its program (\<open>reload_teapots_stage\<close> and the
  five lemmas after it).
\<close>

definition stage_step ::
  "('cam, 'ray, 'rng, 'mat) cinder \<Rightarrow> shader \<Rightarrow> ('cam, 'rng, 'mat) app \<Rightarrow> ('cam, 'rng, 'mat) app" where
  "stage_step fw st s =
    (if attempted st s then
       (let s1 = s\<lparr>assetLog := assetLog s @ build_requests fw (stage_assets st)\<rparr> in
        case build_outcome fw (stage_assets st) of
          Inr g \<Rightarrow> set_slot st (Some (configure st (mMaxCoCRadiusPixels s) g)) s1
        | Inl e \<Rightarrow> s1\<lparr>console := console s1 @ [failure_message st e]\<rparr>)
     else s)"

text \<open>The messages a stage prints, and the assets it asks for, from a state \<open>s\<close>.\<close>

definition stage_failures ::
  "('cam, 'ray, 'rng, 'mat) cinder \<Rightarrow> ('cam, 'rng, 'mat) app \<Rightarrow> shader \<Rightarrow> string list" where
  "stage_failures fw s st =
    (if attempted st s then
       (case build_outcome fw (stage_assets st) of Inl e \<Rightarrow> [failure_message st e] | Inr g \<Rightarrow> [])
     else [])"

definition stage_requests ::
  "('cam, 'ray, 'rng, 'mat) cinder \<Rightarrow> ('cam, 'rng, 'mat) app \<Rightarrow> shader \<Rightarrow> string list" where
  "stage_requests fw s st = (if attempted st s then build_requests fw (stage_assets st) else [])"

definition stage_result ::
  "('cam, 'ray, 'rng, 'mat) cinder \<Rightarrow> ('cam, 'rng, 'mat) app \<Rightarrow> shader \<Rightarrow> glsl_prog option" where
  "stage_result fw s st =
    (if attempted st s then
       (case build_outcome fw (stage_assets st) of
          Inl e \<Rightarrow> slot st s
        | Inr g \<Rightarrow> Some (configure st (mMaxCoCRadiusPixels s) g))
     else slot st s)"

text \<open>The shader assets \<^verbatim>\<open>reload()\<close> names.\<close>

definition shader_assets :: "string list" where
  "shader_assets = [''instanced.vert'', ''scene.frag'', ''debug.frag'', ''single.vert'',
                    ''blur.vert'', ''blur.frag'', ''composite.vert'', ''composite.frag'']"

text \<open>
  The start of the application as the framework drives it: \<^verbatim>\<open>setup()\<close>, \<^verbatim>\<open>resize()\<close>,
  then the first \<^verbatim>\<open>update()\<close> and the first \<^verbatim>\<open>draw()\<close>, with the clock read as \<open>t\<close> in
  \<^verbatim>\<open>update()\<close>. The result is what the first \<^verbatim>\<open>draw()\<close> does.
\<close>

definition first_frame ::
  "('cam, 'ray, 'rng, 'mat) cinder \<Rightarrow> double \<Rightarrow> ('cam, 'rng, 'mat) app \<Rightarrow>
   (error + gl_call list) option" where
  "first_frame fw t s =
    (case setup_app fw s of Inl e \<Rightarrow> Some (Inl e) | Inr s1 \<Rightarrow>
     case update fw t t (resize fw s1) of
       None \<Rightarrow> None
     | Some (Inl e) \<Rightarrow> Some (Inl e)
     | Some (Inr s2) \<Rightarrow> Some (draw s2))"

section \<open>A concrete framework and application\<close>

text \<open>
  A small implementation of the framework interface, on which the model can be
  evaluated: the camera is its field of view, a ray the mouse position it was cast for,
  the generator a counter, a matrix the triple of a translation, an angle and an axis.
  Its \<open>intersect\<close> reports one intersection at distance \<open>c\<close> for every sphere, and the
  assets listed in \<open>missing\<close> fail to load.
\<close>

definition sample_cinder :: "real \<Rightarrow> string list \<Rightarrow> (real, vec2, nat, vec3 \<times> real \<times> vec3) cinder" where
  "sample_cinder c missing =
    \<lparr>getPivotDistance = (\<lambda>cam. 10),
     getPivotPoint = (\<lambda>cam. (0, 0, 0)),
     getViewDirection = (\<lambda>cam. (0, 0, - 1)),
     lookAt = (\<lambda>cam eye target. cam),
     setFov = (\<lambda>cam fov. fov),
     getFocalLength = (\<lambda>cam. 50 / cam),
     setPerspective = (\<lambda>cam fov aspect near far. fov),
     setAspectRatio = (\<lambda>cam aspect. cam),
     generateRay = (\<lambda>cam pos size. pos),
     cameraUi_mouseDown = (\<lambda>cam event. cam),
     cameraUi_mouseDrag = (\<lambda>cam event. cam),
     randSeed = (\<lambda>seed. seed),
     randVec3 = (\<lambda>r. ((1, 0, 0), Suc r)),
     randFloat = (\<lambda>lo hi r. (lo, Suc r)),
     translate = (\<lambda>v. (v, 0, (0, 0, 0))),
     rotate = (\<lambda>angle axis. ((0, 0, 0), angle, axis)),
     mat_mul = (\<lambda>a b. (fst a, fst (snd b), snd (snd b))),
     radians = (\<lambda>degrees. degrees),
     transformed = (\<lambda>sph m. sph),
     intersect = (\<lambda>sph ray. (1, c, c)),
     teapotBounds = ((0, 0, 0), (2, 0, 0)),
     loadAsset = (\<lambda>path. if path \<in> set missing then Inl (''missing '' @ path) else Inr path),
     loadImage = (\<lambda>data. Inr data),
     compile = (\<lambda>v f defs. None),
     createFbo = (\<lambda>f. None),
     stockShader = \<lparr>vertex_src = ''stock'', fragment_src = ''stock'', prog_defines = [], uniforms = []\<rparr>\<rparr>"

text \<open>
  The application as constructed, in the window \<^verbatim>\<open>prepare\<close> asks for; and the same after
  the mouse has moved to the middle of the window with Shift held.
\<close>

definition sample_app :: "(real, nat, vec3 \<times> real \<times> vec3) app" where
  "sample_app = DepthOfFieldApp 30 ((0, 0, 0), 1) (0, 0) 0 prepare"

definition sample_shift :: "(real, nat, vec3 \<times> real \<times> vec3) app" where
  "sample_shift = mouseMove \<lparr>mouse_getPos = (480, 270), mouse_isShiftDown = True\<rparr> sample_app"

section \<open>Properties of the fixed-timestep update\<close>

lemma fstops_length: "length fstops = 17"
  by (simp add: fstops_def)

lemma fold_concat_map: "fold f (concat (map g xs)) = fold (\<lambda>x. fold f (g x)) xs"
  by (induction xs) simp_all

lemma loop_x_fold:
  "loop_x fw shift bounds ray time z y =
     fold (instance_step fw shift bounds ray time) (map (\<lambda>x. (x, y, z)) [- 4 .. 4])"
  by (rule ext) (simp only: loop_x_def fold_map comp_def)

lemma loop_y_fold:
  "loop_y fw shift bounds ray time z =
     fold (instance_step fw shift bounds ray time)
       (concat (map (\<lambda>y. map (\<lambda>x. (x, y, z)) [- 4 .. 4]) [- 4 .. 4]))"
  by (rule ext) (simp only: loop_y_def loop_x_fold fold_concat_map)

lemma loop_z_grid:
  "loop_z fw shift bounds ray time st = fold (instance_step fw shift bounds ray time) grid st"
  by (simp only: loop_z_def loop_y_fold grid_def fold_concat_map)

lemma length_concat_map_const:
  "(\<And>x. length (g x) = n) \<Longrightarrow> length (concat (map g xs)) = n * length xs"
  by (induction xs) simp_all

lemma length_grid: "length grid = 729"
proof -
  have nine: "length [- 4 .. (4::int)] = 9" by simp
  have row: "length (concat (map (\<lambda>y. map (\<lambda>x. (x, y, z)) [- 4 .. (4::int)]) [- 4 .. (4::int)])) = 81" for z :: int
    by (subst length_concat_map_const [where n = 9]) (simp_all only: length_map nine)
  show ?thesis
    unfolding grid_def
    by (subst length_concat_map_const [where n = 81]) (simp_all only: row nine)
qed

lemma instance_matrices_Nil: "instance_matrices fw time [] r = []"
  by (simp add: instance_matrices_def)

lemma instance_matrices_Cons:
  "instance_matrices fw time (p # ps) r =
     (let (axis, r1) = randVec3 fw r;
          (a0, r2) = randFloat fw (- 180) 180 r1;
          (a1, r3) = randFloat fw 1 90 r2
      in instance_matrix fw time p (axis, a0, a1) # instance_matrices fw time ps r3)"
  by (simp add: instance_matrices_def split_beta Let_def)

lemma scan_fold:
  "fold (instance_step fw shift bounds ray time) ps st =
     \<lparr>sc_rand = snd (rand_draws fw (length ps) (sc_rand st)),
      sc_out = sc_out st @ instance_matrices fw time ps (sc_rand st),
      sc_dist = (if shift then nearest (hit_dists fw bounds ray (instance_matrices fw time ps (sc_rand st))) (sc_dist st)
                 else sc_dist st),
      sc_tested = (if shift then sc_tested st @ map (transformed fw bounds) (instance_matrices fw time ps (sc_rand st))
                   else sc_tested st)\<rparr>"
proof (induction ps arbitrary: st)
  case Nil
  show ?case by (simp add: instance_matrices_Nil hit_dists_def nearest_def)
next
  case (Cons p ps)
  show ?case
    apply (simp only: fold_simps Cons.IH)
    apply (cases p)
    apply (simp add: instance_step_def instance_matrices_Cons instance_matrix_def split_beta Let_def
        hit_dists_def nearest_def)
    done
qed

lemma nearest_min: "nearest hs d = (if hs = [] then d else min d (Min (set hs)))"
proof (induction hs arbitrary: d)
  case Nil
  show ?case by (simp add: nearest_def)
next
  case (Cons h hs)
  have "nearest (h # hs) d = nearest hs (if h < d then h else d)"
    by (simp add: nearest_def)
  also have "\<dots> = (if hs = [] then (if h < d then h else d) else min (if h < d then h else d) (Min (set hs)))"
    by (rule Cons.IH)
  finally show ?case
    by (auto simp: min_def)
qed

lemma update_timestep_result:
  assumes "fstops_at (mFocalStop s) = Some f"
  shows "update_timestep fw ts s =
    Inr (let fl = getFocalLength fw (tick_camera fw s);
             ms = tick_matrices fw (mTime s + ts);
             d = nearest (hit_dists fw (mBounds s) (tick_ray fw s) ms) FLT_MAX
         in s\<lparr>mTime := mTime s + ts,
               mCamera := tick_camera fw s,
               mFocalLength := fl,
               mFocalPlane := (if mShiftDown s \<and> d < FLT_MAX then d else max (mFocalPlane s) fl),
               mAperture := fl / f,
               rand := snd (rand_draws fw 729 (randSeed fw 12345)),
               mInstances := ms\<rparr>)"
  using assms
  by (simp add: update_timestep_def Let_def loop_z_grid scan_fold length_grid tick_camera_def
      tick_ray_def tick_matrices_def)

lemma fstops_positive: "x \<in> set fstops \<Longrightarrow> 0 < x"
  by (auto simp: fstops_def)

lemma fstops_at_Some:
  assumes "0 \<le> i" "i \<le> 16"
  shows "fstops_at i = Some (fstops ! nat i)" and "0 < fstops ! nat i" and "nat i < length fstops"
proof -
  from assms show lt: "nat i < length fstops" by (simp add: fstops_length)
  from assms show "fstops_at i = Some (fstops ! nat i)" by (simp add: fstops_at_def fstops_length)
  from lt show "0 < fstops ! nat i" by (intro fstops_positive nth_mem)
qed

lemma labels_denote_fstops: "map decimal fstop_labels = fstops"
  by (simp add: fstop_labels_def fstops_def decimal_def digit_def)

lemma tick_aperture:
  assumes "0 \<le> mFocalStop s" "mFocalStop s \<le> 16"
  shows "\<exists>s' d. update_timestep fw ts s = Inr s' \<and> fstops_at (mFocalStop s) = Some d
           \<and> d = fstops ! nat (mFocalStop s) \<and> nat (mFocalStop s) < length fstops \<and> d \<noteq> 0
           \<and> mFocalLength s' = getFocalLength fw (mCamera s')
           \<and> mAperture s' = mFocalLength s' / d"
proof -
  let ?d = "fstops ! nat (mFocalStop s)"
  note at = fstops_at_Some [OF assms]
  from at(2) have nz: "?d \<noteq> 0" by simp
  show ?thesis
    using at(1) at(3) nz
    by (simp add: update_timestep_result [OF at(1)] Let_def)
qed

lemma length_rand_draws: "length (fst (rand_draws fw n r)) = n"
  by (induction n arbitrary: r) (simp_all add: split_beta Let_def)

lemma length_instance_matrices: "length (instance_matrices fw time ps r) = length ps"
  by (simp add: instance_matrices_def length_rand_draws)

lemma length_tick_matrices: "length (tick_matrices fw time) = 729"
  by (simp add: tick_matrices_def length_instance_matrices length_grid)

lemma Min_set_below:
  assumes "h \<in> set hs" and "h < c"
  shows "Min (set hs) < (c::real)"
proof -
  have "Min (set hs) \<le> h" using assms(1) by (intro Min_le) simp_all
  with assms(2) show ?thesis by simp
qed

lemma nearest_below:
  "nearest hs FLT_MAX < FLT_MAX \<longleftrightarrow> (\<exists>h\<in>set hs. h < FLT_MAX)"
proof (cases "hs = []")
  case True
  then show ?thesis by (simp add: nearest_min)
next
  case False
  then have "Min (set hs) \<in> set hs" by (intro Min_in) simp_all
  then show ?thesis
    using False by (auto simp: nearest_min min_less_iff_disj dest: Min_set_below)
qed

lemma nearest_is_Min:
  assumes "\<exists>h\<in>set hs. h < FLT_MAX"
  shows "nearest hs FLT_MAX = Min (set hs)"
proof -
  from assms have ne: "hs \<noteq> []" by auto
  from assms have "Min (set hs) < FLT_MAX" by (auto dest: Min_set_below)
  with ne show ?thesis by (simp add: nearest_min)
qed

text \<open>
  Claim C1. In a fixed-tick update, let the hits be the near-intersection distances of the
  mouse ray with those of the 729 instance bounding spheres (the teapot bounding sphere
  transformed by each instance's model matrix) that it intersects. When Shift is not
  held, and when Shift is held and there is no hit, the auto-focus step leaves
  \<open>mFocalPlane\<close> as line 240 set it. When Shift is held and there are hits, all below
  \<^verbatim>\<open>FLT_MAX\<close> (the value \<^verbatim>\<open>dist\<close> starts from), \<open>mFocalPlane\<close> becomes the smallest of them.
\<close>

theorem autofocus_focal_plane:
  assumes "0 \<le> mFocalStop s" and "mFocalStop s \<le> 16"
  shows "\<exists>s'. update_timestep fw ts s = Inr s' \<and> length (mInstances s') = 729 \<and>
    (let hits = hit_dists fw (mBounds s) (tick_ray fw s) (mInstances s');
         unchanged = max (mFocalPlane s) (mFocalLength s')
     in (\<not> mShiftDown s \<longrightarrow> mFocalPlane s' = unchanged)
      \<and> (mShiftDown s \<and> hits = [] \<longrightarrow> mFocalPlane s' = unchanged)
      \<and> (mShiftDown s \<and> hits \<noteq> [] \<and> (\<forall>h\<in>set hits. h < FLT_MAX)
           \<longrightarrow> mFocalPlane s' = Min (set hits)))"
proof -
  note at = fstops_at_Some [OF assms]
  have "hs \<noteq> [] \<Longrightarrow> \<forall>h\<in>set hs. h < FLT_MAX \<Longrightarrow> \<exists>h\<in>set hs. h < FLT_MAX" for hs :: "real list"
    by (cases hs) simp_all
  then show ?thesis
    by (auto simp: update_timestep_result [OF at(1)] Let_def length_tick_matrices nearest_below
        nearest_is_Min nearest_min)
qed

text \<open>
  Claim C9. After a fixed-tick update in which Shift is not held, or the mouse ray
  intersects none of the instance bounding spheres, \<open>mFocalPlane\<close> is at least
  \<open>mFocalLength\<close>, the camera's focal length of that tick.
\<close>

theorem focal_plane_not_below_focal_length:
  assumes "0 \<le> mFocalStop s" and "mFocalStop s \<le> 16"
  shows "\<exists>s'. update_timestep fw ts s = Inr s' \<and> mFocalLength s' = getFocalLength fw (mCamera s') \<and>
    (\<not> mShiftDown s \<or> hit_dists fw (mBounds s) (tick_ray fw s) (mInstances s') = []
       \<longrightarrow> mFocalLength s' \<le> mFocalPlane s')"
proof -
  note at = fstops_at_Some [OF assms]
  show ?thesis
    by (auto simp: update_timestep_result [OF at(1)] Let_def nearest_min)
qed

text \<open>
  Claim C5. The generator is reseeded with 12345 in every tick, so two fixed-tick updates
  that reach the same \<open>mTime\<close> write the same 729 matrices, whatever the rest of the two
  states: the matrix of an instance is a function of its grid position, of the values
  drawn for it from the seeded generator (the same in every tick), and of \<open>mTime\<close>.
\<close>

theorem instance_matrices_deterministic:
  assumes "0 \<le> mFocalStop s1" and "mFocalStop s1 \<le> 16"
    and "0 \<le> mFocalStop s2" and "mFocalStop s2 \<le> 16"
    and "mTime s1 + ts1 = mTime s2 + ts2"
  shows "\<exists>s1' s2'. update_timestep fw ts1 s1 = Inr s1' \<and> update_timestep fw ts2 s2 = Inr s2'
    \<and> mTime s1' = mTime s2' \<and> mInstances s1' = mInstances s2' \<and> length (mInstances s1') = 729
    \<and> mInstances s1' = map (\<lambda>(p, d). instance_matrix fw (mTime s1') p d)
                              (zip grid (fst (rand_draws fw 729 (randSeed fw 12345))))"
proof -
  note at1 = fstops_at_Some [OF assms(1,2)]
  note at2 = fstops_at_Some [OF assms(3,4)]
  show ?thesis
    using assms(5)
    by (simp add: update_timestep_result [OF at1(1)] update_timestep_result [OF at2(1)] Let_def
        length_tick_matrices tick_matrices_def instance_matrices_def length_grid length_rand_draws)
qed

lemma sample_hit_dists: "hit_dists (sample_cinder c missing) b r ms = map (\<lambda>m. c) ms"
  by (simp add: hit_dists_def sample_cinder_def comp_def)

lemma sample_hits_set:
  "length ms = 729 \<Longrightarrow> set (hit_dists (sample_cinder c missing) b r ms) = {c}"
  by (cases ms) (auto simp: sample_hit_dists)

lemma sample_app_fields:
  "mFocalStop sample_app = 8" "mFocalPlane sample_app = 10" "mFoV sample_app = 25"
  "mShiftDown sample_app = False" "mTime sample_app = 0" "mPaused sample_app = False"
  by (simp_all add: sample_app_def DepthOfFieldApp_def)

lemma sample_shift_fields:
  "mFocalStop sample_shift = 8" "mFocalPlane sample_shift = 10" "mFoV sample_shift = 25"
  "mShiftDown sample_shift = True" "mTime sample_shift = 0" "mMousePos sample_shift = (480, 270)"
  by (simp_all add: sample_shift_def mouseMove_def sample_app_fields)

lemma sample_focal_length:
  "getFocalLength (sample_cinder c missing) (tick_camera (sample_cinder c missing) s) = 50 / mFoV s"
  by (simp add: tick_camera_def sample_cinder_def Let_def)

text \<open>
  With Shift held and every sphere hit at distance 7, the focal plane becomes 7.
\<close>

theorem autofocus_focal_plane_witness:
  "0 \<le> mFocalStop sample_shift \<and> mFocalStop sample_shift \<le> 16 \<and> mShiftDown sample_shift \<and>
   (\<exists>s'. update_timestep (sample_cinder 7 []) (1 / 60) sample_shift = Inr s'
      \<and> length (mInstances s') = 729
      \<and> hit_dists (sample_cinder 7 []) (mBounds sample_shift)
            (tick_ray (sample_cinder 7 []) sample_shift) (mInstances s') \<noteq> []
      \<and> set (hit_dists (sample_cinder 7 []) (mBounds sample_shift)
                 (tick_ray (sample_cinder 7 []) sample_shift) (mInstances s')) = {7}
      \<and> 7 < FLT_MAX
      \<and> mFocalPlane s' = 7)"
proof -
  have range: "0 \<le> mFocalStop sample_shift" "mFocalStop sample_shift \<le> 16"
    by (simp_all add: sample_shift_fields)
  from autofocus_focal_plane [OF range, of "sample_cinder 7 []" "1 / 60"]
  obtain s' where tick: "update_timestep (sample_cinder 7 []) (1 / 60) sample_shift = Inr s'"
    and len: "length (mInstances s') = 729"
    and focal: "(let hits = hit_dists (sample_cinder 7 []) (mBounds sample_shift)
                     (tick_ray (sample_cinder 7 []) sample_shift) (mInstances s');
                     unchanged = max (mFocalPlane sample_shift) (mFocalLength s')
                 in (\<not> mShiftDown sample_shift \<longrightarrow> mFocalPlane s' = unchanged)
                  \<and> (mShiftDown sample_shift \<and> hits = [] \<longrightarrow> mFocalPlane s' = unchanged)
                  \<and> (mShiftDown sample_shift \<and> hits \<noteq> [] \<and> (\<forall>h\<in>set hits. h < FLT_MAX)
                       \<longrightarrow> mFocalPlane s' = Min (set hits)))"
    by blast
  have hits: "set (hit_dists (sample_cinder 7 []) (mBounds sample_shift)
                 (tick_ray (sample_cinder 7 []) sample_shift) (mInstances s')) = {7}"
    using len by (rule sample_hits_set)
  then have ne: "hit_dists (sample_cinder 7 []) (mBounds sample_shift)
                 (tick_ray (sample_cinder 7 []) sample_shift) (mInstances s') \<noteq> []"
    by auto
  have below: "(7::real) < FLT_MAX" by (simp add: FLT_MAX_def)
  from focal have "mFocalPlane s' = 7"
    using ne below by (simp add: Let_def hits sample_shift_fields)
  with range tick len hits ne below show ?thesis
    by (simp add: sample_shift_fields)
qed

text \<open>
  Without Shift: the focal length is 2 and the focal plane stays 10.
\<close>

theorem focal_plane_not_below_focal_length_witness:
  "0 \<le> mFocalStop sample_app \<and> mFocalStop sample_app \<le> 16 \<and> \<not> mShiftDown sample_app \<and>
   (\<exists>s'. update_timestep (sample_cinder 7 []) (1 / 60) sample_app = Inr s'
      \<and> mFocalLength s' = 2 \<and> mFocalPlane s' = 10 \<and> mFocalLength s' \<le> mFocalPlane s')"
proof -
  let ?fw = "sample_cinder 7 []"
  have range: "0 \<le> mFocalStop sample_app" "mFocalStop sample_app \<le> 16"
    by (simp_all add: sample_app_fields)
  from focal_plane_not_below_focal_length [OF range, of ?fw "1 / 60"]
  obtain s' where tick: "update_timestep ?fw (1 / 60) sample_app = Inr s'"
    and le: "\<not> mShiftDown sample_app
               \<or> hit_dists ?fw (mBounds sample_app) (tick_ray ?fw sample_app) (mInstances s') = []
             \<longrightarrow> mFocalLength s' \<le> mFocalPlane s'"
    by blast
  have at: "fstops_at (mFocalStop sample_app) = Some (fstops ! nat (mFocalStop sample_app))"
    using range by (rule fstops_at_Some)
  from tick have "mFocalLength s' = 2" and "mFocalPlane s' = 10"
    by (auto simp: update_timestep_result [OF at] Let_def sample_app_fields sample_focal_length)
  moreover from le have "mFocalLength s' \<le> mFocalPlane s'"
    by (simp add: sample_app_fields)
  ultimately show ?thesis
    using range tick by (simp add: sample_app_fields)
qed

text \<open>
  Two states that differ in Shift and in the mouse position write the same matrices.
\<close>

theorem instance_matrices_deterministic_witness:
  "0 \<le> mFocalStop sample_app \<and> mFocalStop sample_app \<le> 16
   \<and> 0 \<le> mFocalStop sample_shift \<and> mFocalStop sample_shift \<le> 16
   \<and> mTime sample_app + 1 / 60 = mTime sample_shift + 1 / 60
   \<and> mShiftDown sample_app \<noteq> mShiftDown sample_shift
   \<and> (\<exists>s1' s2'. update_timestep (sample_cinder 7 []) (1 / 60) sample_app = Inr s1'
         \<and> update_timestep (sample_cinder 7 []) (1 / 60) sample_shift = Inr s2'
         \<and> mInstances s1' = mInstances s2' \<and> length (mInstances s1') = 729)"
proof -
  have r1: "0 \<le> mFocalStop sample_app" "mFocalStop sample_app \<le> 16"
    by (simp_all add: sample_app_fields)
  have r2: "0 \<le> mFocalStop sample_shift" "mFocalStop sample_shift \<le> 16"
    by (simp_all add: sample_shift_fields)
  have t: "mTime sample_app + 1 / 60 = mTime sample_shift + 1 / 60"
    by (simp add: sample_app_fields sample_shift_fields)
  from instance_matrices_deterministic [OF r1 r2 t, of "sample_cinder 7 []"]
  have "\<exists>s1' s2'. update_timestep (sample_cinder 7 []) (1 / 60) sample_app = Inr s1'
         \<and> update_timestep (sample_cinder 7 []) (1 / 60) sample_shift = Inr s2'
         \<and> mInstances s1' = mInstances s2' \<and> length (mInstances s1') = 729"
    by blast
  with r1 r2 t show ?thesis
    by (simp add: sample_app_fields sample_shift_fields)
qed

text \<open>
  Claim C10. For \<open>mFocalStop\<close> from 0 to 16, the 17 entries of the panel's F-stop list,
  the read \<^verbatim>\<open>fstops[mFocalStop]\<close> is inside the table, the value read is not zero, the
  aperture is set to \<open>mFocalLength\<close> divided by it, and the table holds the 17 values
  the panel lists.
\<close>

theorem fstop_index_in_bounds:
  assumes "0 \<le> mFocalStop s" and "mFocalStop s \<le> 16"
  shows "(\<exists>s' d. update_timestep fw ts s = Inr s' \<and> nat (mFocalStop s) < length fstops
           \<and> fstops_at (mFocalStop s) = Some d \<and> d = fstops ! nat (mFocalStop s) \<and> d \<noteq> 0
           \<and> mFocalLength s' = getFocalLength fw (mCamera s')
           \<and> mAperture s' = mFocalLength s' / d)
    \<and> EnumParam ''F-stop'' fstop_labels \<in> set params_panel
    \<and> length fstop_labels = 17 \<and> length fstops = 17
    \<and> map decimal fstop_labels = fstops"
proof -
  have "EnumParam ''F-stop'' fstop_labels \<in> set params_panel"
    by (simp add: params_panel_def)
  moreover have "length fstop_labels = 17"
    by (simp add: fstop_labels_def)
  ultimately show ?thesis
    using tick_aperture [OF assms, of fw ts] labels_denote_fstops fstops_length by blast
qed

text \<open>
  At the initial index 8 the f-stop is 2.8 and the aperture 2 / 2.8.
\<close>

theorem fstop_index_in_bounds_witness:
  "0 \<le> mFocalStop sample_app \<and> mFocalStop sample_app \<le> 16 \<and>
   (\<exists>s'. update_timestep (sample_cinder 7 []) (1 / 60) sample_app = Inr s'
      \<and> fstops_at (mFocalStop sample_app) = Some 2.8
      \<and> mFocalLength s' = 2 \<and> mAperture s' = 2 / 2.8)"
proof -
  let ?fw = "sample_cinder 7 []"
  have range: "0 \<le> mFocalStop sample_app" "mFocalStop sample_app \<le> 16"
    by (simp_all add: sample_app_fields)
  from fstop_index_in_bounds [OF range, of ?fw "1 / 60"]
  obtain s' d where tick: "update_timestep ?fw (1 / 60) sample_app = Inr s'"
    and d: "d = fstops ! nat (mFocalStop sample_app)"
    and at: "fstops_at (mFocalStop sample_app) = Some d"
    and ap: "mAperture s' = mFocalLength s' / d"
    by blast
  have d28: "d = 2.8"
    by (simp add: d sample_app_fields fstops_def)
  from tick have fl: "mFocalLength s' = 2"
    by (auto simp: update_timestep_result [OF at] Let_def sample_app_fields sample_focal_length)
  show ?thesis
    using range tick at ap by (simp add: d28 fl)
qed

section \<open>Properties of rounding to a double\<close>

lemma rne_error: "\<bar>of_int (rne q) - q\<bar> \<le> 1 / 2"
  unfolding rne_def Let_def by (auto; linarith)

lemma rne_nonneg: "0 \<le> q \<Longrightarrow> 0 \<le> rne q"
  unfolding rne_def Let_def by (auto; linarith)

lemma ulp_pos: "0 < ulp x"
  by (simp add: ulp_def)

lemma exponent_eqI:
  assumes "2 powi e \<le> \<bar>x\<bar>" and "\<bar>x\<bar> < 2 powi (e + 1)" and "- 1022 \<le> e"
  shows "exponent x = e"
proof -
  define m where "m = nat (e + 1074)"
  have m: "int m = e + 1074" using assms(3) by (simp add: m_def)
  have p: "(2::real) powi e * 2 ^ 1074 = 2 ^ m"
  proof -
    have "(2::real) powi e * 2 ^ 1074 = 2 powi e * 2 powi 1074" by simp
    also have "\<dots> = 2 powi (e + 1074)" by (simp add: power_int_add)
    also have "\<dots> = 2 ^ m" using m by (metis power_int_of_nat)
    finally show ?thesis .
  qed
  have q: "(2::real) powi (e + 1) * 2 ^ 1074 = 2 ^ Suc m"
  proof -
    have "(2::real) powi (e + 1) = 2 powi e * 2" by (simp add: power_int_add)
    then show ?thesis using p by simp
  qed
  let ?n = "\<lfloor>\<bar>x\<bar> * 2 ^ 1074\<rfloor>"
  have "(2::real) ^ m \<le> \<bar>x\<bar> * 2 ^ 1074"
    using assms(1) unfolding p [symmetric] by simp
  then have lo: "2 ^ m \<le> ?n" by (simp add: le_floor_iff)
  have "\<bar>x\<bar> * 2 ^ 1074 < 2 ^ Suc m"
    using assms(2) unfolding q [symmetric] by simp
  then have hi: "?n < 2 ^ Suc m" by (simp add: floor_less_iff)
  have "bitlen ?n \<le> int (Suc m)"
    unfolding bitlen_le_iff_power using hi by (simp only: nat_int of_nat_0_le_iff simp_thms)
  moreover have "int (Suc m) \<le> bitlen ?n"
    unfolding bitlen_ge_iff_power using lo by (simp only: nat_int diff_Suc_1 simp_thms)
  ultimately have "bitlen ?n = e + 1075" using m by simp
  then show ?thesis using assms(3) by (simp add: exponent_def)
qed

lemma exponent_small:
  assumes "\<bar>x\<bar> < 1"
  shows "exponent x \<le> - 1"
proof -
  have "\<bar>x\<bar> * 2 ^ 1074 < 2 ^ 1074" using assms by simp
  then have "\<lfloor>\<bar>x\<bar> * 2 ^ 1074\<rfloor> < 2 ^ 1074"
    by (simp add: floor_less_iff)
  then have "bitlen \<lfloor>\<bar>x\<bar> * 2 ^ 1074\<rfloor> \<le> 1074"
    by (simp add: bitlen_le_iff_power)
  then show ?thesis by (simp add: exponent_def)
qed

lemma ulp_small:
  assumes "\<bar>x\<bar> < 1"
  shows "ulp x \<le> 1 / 2 ^ 53"
proof -
  have "exponent x - 52 \<le> - 53" using exponent_small [OF assms] by simp
  then have "(2::real) powi (exponent x - 52) \<le> 2 powi (- 53)"
    by (intro power_int_increasing) simp_all
  then show ?thesis by (simp add: ulp_def power_int_minus field_simps)
qed

lemma DBL_MAX_large: "2 \<le> DBL_MAX"
  by (simp add: DBL_MAX_def)

lemma round_error:
  "\<bar>of_int (rne (x / ulp x)) * ulp x - x\<bar> \<le> ulp x / 2"
proof -
  let ?u = "ulp x"
  have u: "0 < ?u" by (rule ulp_pos)
  have "of_int (rne (x / ?u)) * ?u - x = (of_int (rne (x / ?u)) - x / ?u) * ?u"
    using u by (simp add: field_simps)
  then have "\<bar>of_int (rne (x / ?u)) * ?u - x\<bar> = \<bar>of_int (rne (x / ?u)) - x / ?u\<bar> * ?u"
    using u by (simp add: abs_mult)
  also have "\<dots> \<le> 1 / 2 * ?u"
    using u rne_error [of "x / ?u"] by (intro mult_right_mono) simp_all
  finally show ?thesis by simp
qed

lemma round_small:
  assumes "\<bar>x\<bar> < 1"
  shows "\<exists>y. round_to_double x = Finite y \<and> \<bar>y - x\<bar> \<le> 1 / 2 ^ 54 \<and> (0 \<le> x \<longrightarrow> 0 \<le> y)"
proof -
  let ?u = "ulp x"
  let ?y = "of_int (rne (x / ?u)) * ?u"
  have u: "0 < ?u" by (rule ulp_pos)
  have "\<bar>?y - x\<bar> \<le> ?u / 2" by (rule round_error)
  moreover have "?u / 2 \<le> 1 / 2 ^ 54" using ulp_small [OF assms] by simp
  ultimately have err: "\<bar>?y - x\<bar> \<le> 1 / 2 ^ 54" by simp
  have "\<bar>?y\<bar> = \<bar>(?y - x) + x\<bar>" by simp
  also have "\<dots> \<le> \<bar>?y - x\<bar> + \<bar>x\<bar>" by (rule abs_triangle_ineq)
  also have "\<dots> \<le> 1 / 2 ^ 54 + 1" using err assms by (intro add_mono) simp_all
  also have "\<dots> \<le> 2" by simp
  finally have "\<bar>?y\<bar> \<le> 2" .
  with DBL_MAX_large have "\<not> DBL_MAX < ?y" "\<not> ?y < - DBL_MAX" by simp_all
  then have r: "round_to_double x = Finite ?y"
    by (simp add: round_to_double_def Let_def)
  have "0 \<le> x \<longrightarrow> 0 \<le> ?y"
    using u rne_nonneg [of "x / ?u"] by simp
  with r err show ?thesis by blast
qed


lemma round_eval:
  assumes "2 powi e \<le> \<bar>x\<bar>" and "\<bar>x\<bar> < 2 powi (e + 1)" and "- 1022 \<le> e" and "e < 0"
  shows "round_to_double x = Finite (of_int (rne (x / 2 powi (e - 52))) * 2 powi (e - 52))"
proof -
  have "(2::real) powi (e + 1) \<le> 2 powi 0"
    using assms(4) by (intro power_int_increasing) simp_all
  with assms(2) have "\<bar>x\<bar> < 1" by simp
  from round_small [OF this] obtain y where "round_to_double x = Finite y" by blast
  then have "round_to_double x = Finite (of_int (rne (x / ulp x)) * ulp x)"
    by (simp add: round_to_double_def Let_def split: if_splits)
  then show ?thesis
    by (simp add: ulp_def exponent_eqI [OF assms(1-3)])
qed

lemma round_zero: "round_to_double 0 = Finite 0"
  using DBL_MAX_large by (simp add: round_to_double_def rne_def)

text \<open>The two constants of the frame clock.\<close>

lemma timestep_value: "timestep = Finite (4803839602528529 / 2 ^ 58)"
  unfolding timestep_def
  by (subst round_eval [where e = "- 6"]) (simp_all add: rne_def)

lemma literal_0_1_value: "literal_0_1 = Finite (7205759403792794 / 2 ^ 56)"
  unfolding literal_0_1_def
  by (subst round_eval [where e = "- 4"]) (simp_all add: rne_def)

lemma dsub_Finite: "dsub (Finite x) (Finite y) = round_to_double (x - y)"
  by (simp add: dsub_def)


lemma dge_timestep: "dge (Finite x) timestep \<longleftrightarrow> 4803839602528529 / 2 ^ 58 \<le> x"
  by (simp add: timestep_value)

section \<open>Properties of the per-frame update\<close>

lemma update_timestep_keeps_accumulator:
  "update_timestep fw ts s = Inr s' \<Longrightarrow> static_accumulator s' = static_accumulator s"
  by (auto simp: update_timestep_def Let_def split: option.splits if_splits)



lemma update_timestep_kept:
  assumes "update_timestep fw ts s = Inr s'"
  shows "mPaused s' = mPaused s" and "mFocalStop s' = mFocalStop s" and "mTime s' = mTime s + ts"
    and "static_time s' = static_time s"
  using assms by (auto simp: update_timestep_def Let_def split: option.splits if_splits)

lemma update_timestep_returns:
  assumes "0 \<le> mFocalStop s" and "mFocalStop s \<le> 16"
  shows "\<exists>s'. update_timestep fw ts s = Inr s'"
  using update_timestep_result [OF fstops_at_Some(1) [OF assms]] by blast

lemma repeat_tick_returns:
  assumes "0 \<le> mFocalStop s" and "mFocalStop s \<le> 16"
  shows "\<exists>s'. repeat_tick fw n s = Inr s' \<and> mPaused s' = mPaused s \<and> mFocalStop s' = mFocalStop s
           \<and> static_time s' = static_time s \<and> static_accumulator s' = static_accumulator s
           \<and> mTime s' = mTime s + (if mPaused s then 0 else real n * valof timestep)"
  using assms
proof (induction n arbitrary: s)
  case 0
  show ?case by simp
next
  case (Suc n)
  from update_timestep_returns [OF Suc.prems]
  obtain s1 where tick: "update_timestep fw (valof (if mPaused s then Finite 0 else timestep)) s = Inr s1"
    by blast
  note kept = update_timestep_kept [OF tick] update_timestep_keeps_accumulator [OF tick]
  from Suc.prems kept have "0 \<le> mFocalStop s1" "mFocalStop s1 \<le> 16" by simp_all
  from Suc.IH [OF this] obtain s' where rest: "repeat_tick fw n s1 = Inr s'"
    and "mPaused s' = mPaused s1" "mFocalStop s' = mFocalStop s1"
    and "static_time s' = static_time s1" "static_accumulator s' = static_accumulator s1"
    and "mTime s' = mTime s1 + (if mPaused s1 then 0 else real n * valof timestep)"
    by blast
  with kept tick show ?case
    by (simp add: algebra_simps)
qed

lemma resize_fbos_kept:
  assumes "resize_fbos fw s = Inr s1"
  shows "static_time s1 = static_time s" and "static_accumulator s1 = static_accumulator s"
    and "mPaused s1 = mPaused s" and "mFocalStop s1 = mFocalStop s" and "mTime s1 = mTime s"
  using assms by (auto simp: resize_fbos_def Let_def split: option.splits)




lemma update_unfold:
  assumes "(if mResized s then resize_fbos fw s else Inr s) = Inr s1"
  shows "update fw t_first t_now s =
     update_loop fw (s1\<lparr>static_time :=
          Some (dadd (case static_time s of None \<Rightarrow> t_first | Some t \<Rightarrow> t)
                     (dsub t_now (case static_time s of None \<Rightarrow> t_first | Some t \<Rightarrow> t))),
        static_accumulator := dadd (static_accumulator s)
          (math_min (dsub t_now (case static_time s of None \<Rightarrow> t_first | Some t \<Rightarrow> t)) literal_0_1)\<rparr>)"
proof -
  have kept: "static_time s1 = static_time s" "static_accumulator s1 = static_accumulator s"
    using assms by (auto split: if_splits dest: resize_fbos_kept)
  show ?thesis
    using assms by (simp add: update_def Let_def kept)
qed













section \<open>Properties of drawing and of the Escape key\<close>

lemma draw_returns_iff: "(\<exists>calls. draw s = Inr calls) \<longleftrightarrow> resources_ready s"
  by (auto simp: draw_def draw_scene_def draw_blur0_def draw_blur1_def draw_composite_def
      resources_ready_def split: option.splits sum.splits if_splits)

lemma draw_passes:
  assumes "draw s = Inr calls"
  shows "passes calls = scene_passes (mShowBounds s) @ post_passes"
  using assms
  by (auto simp: draw_def draw_scene_def draw_blur0_def draw_blur1_def draw_composite_def
      scene_uniforms_def passes_def scene_passes_def post_passes_def
      split: option.splits sum.splits if_splits)

lemma draw_instanced:
  assumes "draw s = Inr calls"
  shows "instanced_draws calls = (Teapots, 729) # (if mShowBounds s then [(Spheres, 729)] else [])"
  using assms
  by (auto simp: draw_def draw_scene_def draw_blur0_def draw_blur1_def draw_composite_def
      scene_uniforms_def split: option.splits sum.splits if_splits)

text \<open>
  When none of the references \<^verbatim>\<open>draw()\<close> goes through is null, it performs the render
  passes in one fixed order: the scene, teapots then background (then the bounding spheres
  when they are shown), into the full-resolution source framebuffer; the horizontal blur
  reading the source framebuffer into the first blur framebuffer; the vertical blur
  reading the first blur framebuffer into the second; the composite reading the source
  and the second blur framebuffer to the window.
\<close>

lemma draw_pass_order:
  assumes "resources_ready s"
  shows "\<exists>calls. draw s = Inr calls \<and> passes calls = scene_passes (mShowBounds s) @ post_passes"
  using assms draw_returns_iff [of s] draw_passes [of s] by blast

text \<open>
  Claim C8. On the Escape key the application leaves fullscreen when it is in fullscreen
  and quits otherwise, never both: leaving fullscreen requests no quit, and quitting
  leaves the window mode alone.
\<close>

theorem escape_exits_fullscreen_or_quits:
  assumes "key_getCode event = KEY_ESCAPE"
  shows "keyDown fw event s =
           (if fullScreen s then s\<lparr>mShiftDown := key_isShiftDown event, fullScreen := False\<rparr>
            else s\<lparr>mShiftDown := key_isShiftDown event, quitRequested := True\<rparr>)
    \<and> (fullScreen s \<longrightarrow> \<not> fullScreen (keyDown fw event s)
           \<and> quitRequested (keyDown fw event s) = quitRequested s)
    \<and> (\<not> fullScreen s \<longrightarrow> quitRequested (keyDown fw event s)
           \<and> \<not> fullScreen (keyDown fw event s))"
  using assms by (simp add: keyDown_def Let_def)

section \<open>Properties of \<^verbatim>\<open>reload()\<close>\<close>

lemma create_prog_eq:
  "create_prog fw vert frag defs s =
     (build_outcome fw (vert, frag, defs), s\<lparr>assetLog := assetLog s @ build_requests fw (vert, frag, defs)\<rparr>)"
  by (simp add: create_prog_def load_asset_def build_outcome_def build_requests_def
      split: sum.splits option.splits)

lemma reload_teapots_stage: "reload_teapots fw s = stage_step fw (BatchProg Teapots) s"
  by (simp add: reload_teapots_def stage_step_def create_prog_eq print_console_def Let_def
      failure_message_def split: sum.splits)

lemma reload_spheres_stage: "reload_spheres fw s = stage_step fw (BatchProg Spheres) s"
  by (simp add: reload_spheres_def stage_step_def create_prog_eq print_console_def Let_def
      failure_message_def split: sum.splits)

lemma reload_background_stage: "reload_background fw s = stage_step fw (BatchProg Background) s"
  by (simp add: reload_background_def stage_step_def create_prog_eq print_console_def Let_def
      failure_message_def split: sum.splits)

lemma reload_blur0_stage: "reload_blur0 fw s = stage_step fw GlslBlur0 s"
  by (simp add: reload_blur0_def stage_step_def create_prog_eq print_console_def Let_def
      failure_message_def split: sum.splits)

lemma reload_blur1_stage: "reload_blur1 fw s = stage_step fw GlslBlur1 s"
  by (simp add: reload_blur1_def stage_step_def create_prog_eq print_console_def Let_def
      failure_message_def split: sum.splits)

lemma reload_composite_stage: "reload_composite fw s = stage_step fw GlslComposite s"
  by (simp add: reload_composite_def stage_step_def create_prog_eq print_console_def Let_def
      failure_message_def split: sum.splits)

lemma reload_fold: "reload fw s = fold (stage_step fw) reload_order s"
  by (simp add: reload_def reload_order_def reload_teapots_stage reload_spheres_stage
      reload_background_stage reload_blur0_stage reload_blur1_stage reload_composite_stage)

lemma slot_set_slot: "slot st' (set_slot st p s) = (if st' = st then p else slot st' s)"
  by (cases "(st, p, s)" rule: set_slot.cases; cases "(st', s)" rule: slot.cases) simp_all

lemma set_slot_kept:
  "console (set_slot st p s) = console s" "assetLog (set_slot st p s) = assetLog s"
  "mMaxCoCRadiusPixels (set_slot st p s) = mMaxCoCRadiusPixels s"
  "mTexGold (set_slot st p s) = mTexGold s" "mTexClay (set_slot st p s) = mTexClay s"
  "mFboSource (set_slot st p s) = mFboSource s" "mFboBlur0 (set_slot st p s) = mFboBlur0 s"
  "mFboBlur1 (set_slot st p s) = mFboBlur1 s" "mShowBounds (set_slot st p s) = mShowBounds s"
  "mResized (set_slot st p s) = mResized s" "windowSize (set_slot st p s) = windowSize s"
  "static_time (set_slot st p s) = static_time s"
  "static_accumulator (set_slot st p s) = static_accumulator s"
  "mFocalStop (set_slot st p s) = mFocalStop s" "mInstances (set_slot st p s) = mInstances s"
  by (cases "(st, p, s)" rule: set_slot.cases; simp)+

lemma stage_step_kept:
  "mMaxCoCRadiusPixels (stage_step fw st s) = mMaxCoCRadiusPixels s"
  "mTexGold (stage_step fw st s) = mTexGold s" "mTexClay (stage_step fw st s) = mTexClay s"
  "mFboSource (stage_step fw st s) = mFboSource s" "mFboBlur0 (stage_step fw st s) = mFboBlur0 s"
  "mFboBlur1 (stage_step fw st s) = mFboBlur1 s" "mShowBounds (stage_step fw st s) = mShowBounds s"
  "mResized (stage_step fw st s) = mResized s" "windowSize (stage_step fw st s) = windowSize s"
  "static_time (stage_step fw st s) = static_time s"
  "static_accumulator (stage_step fw st s) = static_accumulator s"
  "mFocalStop (stage_step fw st s) = mFocalStop s" "mInstances (stage_step fw st s) = mInstances s"
  by (simp_all add: stage_step_def Let_def set_slot_kept split: sum.splits)

lemma stage_step_console: "console (stage_step fw st s) = console s @ stage_failures fw s st"
  by (simp add: stage_step_def stage_failures_def Let_def set_slot_kept split: sum.splits)

lemma stage_step_assetLog: "assetLog (stage_step fw st s) = assetLog s @ stage_requests fw s st"
  by (simp add: stage_step_def stage_requests_def Let_def set_slot_kept split: sum.splits)

lemma slot_kept:
  "slot st (s\<lparr>assetLog := a\<rparr>) = slot st s" "slot st (s\<lparr>console := c\<rparr>) = slot st s"
  by (cases "(st, s)" rule: slot.cases; simp)+

lemma stage_step_slot:
  "slot st' (stage_step fw st s) = (if st' = st then stage_result fw s st else slot st' s)"
  by (simp add: stage_step_def stage_result_def Let_def slot_set_slot slot_kept split: sum.splits)

lemma attempted_iff: "attempted st s \<longleftrightarrow> (case st of BatchProg b \<Rightarrow> slot st s \<noteq> None | _ \<Rightarrow> True)"
  by (cases st) simp_all

lemma stage_step_attempted: "attempted st' (stage_step fw st s) = attempted st' s"
  by (cases st') (auto simp: stage_step_slot stage_result_def split: sum.splits)

lemma stage_step_failures: "stage_failures fw (stage_step fw st s) = stage_failures fw s"
  by (rule ext) (simp add: stage_failures_def stage_step_attempted)

lemma stage_step_requests: "stage_requests fw (stage_step fw st s) = stage_requests fw s"
  by (rule ext) (simp add: stage_requests_def stage_step_attempted)

lemma stage_step_result:
  "st' \<noteq> st \<Longrightarrow> stage_result fw (stage_step fw st s) st' = stage_result fw s st'"
  by (simp add: stage_result_def stage_step_attempted stage_step_slot stage_step_kept
      split: sum.splits)

lemma stages_console:
  "console (fold (stage_step fw) sts s) = console s @ concat (map (stage_failures fw s) sts)"
  by (induction sts arbitrary: s) (simp_all add: stage_step_console stage_step_failures)

lemma stages_assetLog:
  "assetLog (fold (stage_step fw) sts s) = assetLog s @ concat (map (stage_requests fw s) sts)"
  by (induction sts arbitrary: s) (simp_all add: stage_step_assetLog stage_step_requests)

lemma stages_slot:
  "distinct sts \<Longrightarrow>
   slot st (fold (stage_step fw) sts s) = (if st \<in> set sts then stage_result fw s st else slot st s)"
proof (induction sts arbitrary: s)
  case Nil
  show ?case by simp
next
  case (Cons a sts)
  then have d: "distinct sts" and a: "a \<notin> set sts" by simp_all
  show ?case
  proof (cases "st = a")
    case True
    with a have "st \<notin> set sts" by simp
    with Cons.IH [OF d, of "stage_step fw a s"]
    have "slot st (fold (stage_step fw) sts (stage_step fw a s)) = slot st (stage_step fw a s)"
      by simp
    then show ?thesis by (simp add: stage_step_slot True)
  next
    case False
    then show ?thesis by (simp add: Cons.IH [OF d] stage_step_slot stage_step_result)
  qed
qed

lemma stages_kept:
  "mMaxCoCRadiusPixels (fold (stage_step fw) sts s) = mMaxCoCRadiusPixels s"
  "mTexGold (fold (stage_step fw) sts s) = mTexGold s"
  "mTexClay (fold (stage_step fw) sts s) = mTexClay s"
  "mFboSource (fold (stage_step fw) sts s) = mFboSource s"
  "mFboBlur0 (fold (stage_step fw) sts s) = mFboBlur0 s"
  "mFboBlur1 (fold (stage_step fw) sts s) = mFboBlur1 s"
  "mShowBounds (fold (stage_step fw) sts s) = mShowBounds s"
  "mResized (fold (stage_step fw) sts s) = mResized s"
  "windowSize (fold (stage_step fw) sts s) = windowSize s"
  "static_time (fold (stage_step fw) sts s) = static_time s"
  "static_accumulator (fold (stage_step fw) sts s) = static_accumulator s"
  "mFocalStop (fold (stage_step fw) sts s) = mFocalStop s"
  "mInstances (fold (stage_step fw) sts s) = mInstances s"
  by (induction sts arbitrary: s; simp add: stage_step_kept)+

lemma reload_order_distinct: "distinct reload_order"
  by (simp add: reload_order_def)

lemma reload_console: "console (reload fw s) = console s @ concat (map (stage_failures fw s) reload_order)"
  by (simp only: reload_fold stages_console)

lemma reload_assetLog: "assetLog (reload fw s) = assetLog s @ concat (map (stage_requests fw s) reload_order)"
  by (simp only: reload_fold stages_assetLog)

lemma reload_slot: "st \<in> set reload_order \<Longrightarrow> slot st (reload fw s) = stage_result fw s st"
  by (simp add: reload_fold stages_slot [OF reload_order_distinct])

lemma reload_kept:
  "mMaxCoCRadiusPixels (reload fw s) = mMaxCoCRadiusPixels s"
  "mTexGold (reload fw s) = mTexGold s" "mTexClay (reload fw s) = mTexClay s"
  "mFboSource (reload fw s) = mFboSource s" "mFboBlur0 (reload fw s) = mFboBlur0 s"
  "mFboBlur1 (reload fw s) = mFboBlur1 s" "mShowBounds (reload fw s) = mShowBounds s"
  "mResized (reload fw s) = mResized s" "windowSize (reload fw s) = windowSize s"
  "static_time (reload fw s) = static_time s"
  "static_accumulator (reload fw s) = static_accumulator s"
  "mFocalStop (reload fw s) = mFocalStop s" "mInstances (reload fw s) = mInstances s"
  by (simp_all only: reload_fold stages_kept)

lemma reload_order_all: "st \<in> set reload_order"
  by (cases st rule: stage_label.cases) (simp_all add: reload_order_def)

lemma reload_keeps_programs: "slot st s \<noteq> None \<Longrightarrow> slot st (reload fw s) \<noteq> None"
  by (simp add: reload_slot [OF reload_order_all] stage_result_def split: sum.splits)

lemma stage_requests_subset: "set (stage_requests fw s st) \<subseteq> set shader_assets"
  by (cases st rule: stage_label.cases)
     (auto simp: stage_requests_def build_requests_def shader_assets_def split: sum.splits)

lemma stage_requests_nonempty: "attempted st s \<Longrightarrow> stage_requests fw s st \<noteq> []"
  by (cases st rule: stage_label.cases)
     (auto simp: stage_requests_def build_requests_def split: sum.splits)

text \<open>
  What \<^verbatim>\<open>reload()\<close> does about failures. A failure to load or compile a program is caught
  for that program alone: the console receives one message per failed program and nothing
  else, every program whose batch exists is attempted whatever became of the others (its
  assets are requested), a failed program's member is left exactly as it was, a built
  program replaces it, and a batch or stage that held a program before \<^verbatim>\<open>reload()\<close>
  holds one after it. \<^verbatim>\<open>reload()\<close> itself always returns.
\<close>

lemma reload_failures_isolated:
  "console (reload fw s) = console s @ concat (map (stage_failures fw s) reload_order)
   \<and> assetLog (reload fw s) = assetLog s @ concat (map (stage_requests fw s) reload_order)
   \<and> (\<forall>st. attempted st s \<longrightarrow>
          (case build_outcome fw (stage_assets st) of
             Inl e \<Rightarrow> slot st (reload fw s) = slot st s
                       \<and> stage_failures fw s st = [failure_message st e]
                       \<and> failure_message st e \<in> set (console (reload fw s))
           | Inr g \<Rightarrow> slot st (reload fw s) = Some (configure st (mMaxCoCRadiusPixels s) g)
                       \<and> stage_failures fw s st = [])
          \<and> stage_requests fw s st \<noteq> []
          \<and> set (stage_requests fw s st) \<subseteq> set (assetLog (reload fw s)))
   \<and> (\<forall>st. \<not> attempted st s \<longrightarrow> slot st (reload fw s) = slot st s)
   \<and> (\<forall>st. slot st s \<noteq> None \<longrightarrow> slot st (reload fw s) \<noteq> None)"
proof -
  have in_order: "st \<in> set reload_order" for st by (rule reload_order_all)
  have "failure_message st e \<in> set (console (reload fw s))"
    if "stage_failures fw s st = [failure_message st e]" for st e
  proof -
    from that have "failure_message st e \<in> set (stage_failures fw s st)" by simp
    with in_order [of st] show ?thesis
      unfolding reload_console by auto
  qed
  moreover have "set (stage_requests fw s st) \<subseteq> set (assetLog (reload fw s))" for st
    using in_order [of st] by (auto simp: reload_assetLog)
  ultimately show ?thesis
    by (auto simp: reload_console reload_assetLog reload_slot [OF in_order] stage_result_def
        stage_failures_def reload_keeps_programs stage_requests_nonempty split: sum.splits)
qed

lemma all_attempted_requests:
  assumes "\<forall>st. attempted st s" and "\<forall>p\<in>set shader_assets. \<exists>d. loadAsset fw p = Inr d"
  shows "concat (map (stage_requests fw s) reload_order) =
           [''instanced.vert'', ''scene.frag'', ''instanced.vert'', ''debug.frag'',
            ''single.vert'', ''scene.frag'', ''blur.vert'', ''blur.frag'',
            ''blur.vert'', ''blur.frag'', ''composite.vert'', ''composite.frag'']"
proof -
  from assms(2) have "\<exists>d. loadAsset fw ''instanced.vert'' = Inr d" "\<exists>d. loadAsset fw ''single.vert'' = Inr d"
    "\<exists>d. loadAsset fw ''blur.vert'' = Inr d" "\<exists>d. loadAsset fw ''composite.vert'' = Inr d"
    by (simp_all add: shader_assets_def)
  with assms(1) show ?thesis
    by (auto simp: reload_order_def stage_requests_def build_requests_def)
qed

lemma setup_app_reload:
  assumes "setup_app fw s = Inr s'"
  shows "\<exists>s0 gold clay. s' = reload fw s0 \<and> mTeapots s0 = Some (stockShader fw)
     \<and> mSpheres s0 = Some (stockShader fw) \<and> mBackground s0 = Some (stockShader fw)
     \<and> mGlslBlur0 s0 = mGlslBlur0 s \<and> mGlslBlur1 s0 = mGlslBlur1 s
     \<and> mGlslComposite s0 = mGlslComposite s
     \<and> assetLog s0 = assetLog s @ [''gold.png'', ''clay.png''] \<and> console s0 = console s
     \<and> mTexGold s0 = Some gold \<and> mTexClay s0 = Some clay
     \<and> mResized s0 = mResized s \<and> windowSize s0 = windowSize s \<and> mShowBounds s0 = mShowBounds s
     \<and> static_time s0 = static_time s \<and> static_accumulator s0 = static_accumulator s
     \<and> mFocalStop s0 = mFocalStop s \<and> mFboSource s0 = mFboSource s
     \<and> mFboBlur0 s0 = mFboBlur0 s \<and> mFboBlur1 s0 = mFboBlur1 s"
  using assms
  by (auto simp: setup_app_def load_texture_def load_asset_def Let_def split_beta
      split: sum.splits prod.splits)

text \<open>
  Claim C4, as amended. \<^verbatim>\<open>reload()\<close> requests shader assets by path, all of them among eight
  files; when the three batches exist and the eight files load, it makes twelve requests
  (two for each of six programs) that cover exactly the eight. \<^verbatim>\<open>reload()\<close> runs on every
  press of the R key and at the end of \<^verbatim>\<open>setup()\<close>, where the three batches exist.
\<close>

theorem reload_shader_assets:
  "(\<exists>requests. assetLog (reload fw s) = assetLog s @ requests \<and> set requests \<subseteq> set shader_assets
      \<and> ((\<forall>st. attempted st s) \<and> (\<forall>p\<in>set shader_assets. \<exists>d. loadAsset fw p = Inr d) \<longrightarrow>
           requests = [''instanced.vert'', ''scene.frag'', ''instanced.vert'', ''debug.frag'',
                       ''single.vert'', ''scene.frag'', ''blur.vert'', ''blur.frag'',
                       ''blur.vert'', ''blur.frag'', ''composite.vert'', ''composite.frag'']
           \<and> set requests = set shader_assets))
   \<and> length shader_assets = 8 \<and> distinct shader_assets
   \<and> (key_getCode event = KEY_r \<longrightarrow>
         keyDown fw event s = reload fw (s\<lparr>mShiftDown := key_isShiftDown event\<rparr>))
   \<and> (\<forall>s'. setup_app fw s = Inr s' \<longrightarrow>
         (\<exists>s0. s' = reload fw s0 \<and> (\<forall>st. attempted st s0)
               \<and> assetLog s0 = assetLog s @ [''gold.png'', ''clay.png'']))"
proof -
  let ?requests = "concat (map (stage_requests fw s) reload_order)"
  have sub: "set ?requests \<subseteq> set shader_assets"
    using stage_requests_subset [of fw s] by auto
  have full: "?requests = [''instanced.vert'', ''scene.frag'', ''instanced.vert'', ''debug.frag'',
                       ''single.vert'', ''scene.frag'', ''blur.vert'', ''blur.frag'',
                       ''blur.vert'', ''blur.frag'', ''composite.vert'', ''composite.frag'']
           \<and> set ?requests = set shader_assets"
    if "\<forall>st. attempted st s" "\<forall>p\<in>set shader_assets. \<exists>d. loadAsset fw p = Inr d"
    unfolding all_attempted_requests [OF that] by (auto simp: shader_assets_def)
  have first: "\<exists>requests. assetLog (reload fw s) = assetLog s @ requests \<and> set requests \<subseteq> set shader_assets
      \<and> ((\<forall>st. attempted st s) \<and> (\<forall>p\<in>set shader_assets. \<exists>d. loadAsset fw p = Inr d) \<longrightarrow>
           requests = [''instanced.vert'', ''scene.frag'', ''instanced.vert'', ''debug.frag'',
                       ''single.vert'', ''scene.frag'', ''blur.vert'', ''blur.frag'',
                       ''blur.vert'', ''blur.frag'', ''composite.vert'', ''composite.frag'']
           \<and> set requests = set shader_assets)"
    using reload_assetLog [of fw s] sub full by blast
  have key: "key_getCode event = KEY_r \<longrightarrow>
         keyDown fw event s = reload fw (s\<lparr>mShiftDown := key_isShiftDown event\<rparr>)"
    by (simp add: keyDown_def Let_def)
  have start: "\<exists>s0. s' = reload fw s0 \<and> (\<forall>st. attempted st s0)
               \<and> assetLog s0 = assetLog s @ [''gold.png'', ''clay.png'']"
    if "setup_app fw s = Inr s'" for s'
  proof -
    from setup_app_reload [OF that] obtain s0 where s0: "s' = reload fw s0"
      "mTeapots s0 = Some (stockShader fw)" "mSpheres s0 = Some (stockShader fw)"
      "mBackground s0 = Some (stockShader fw)" "assetLog s0 = assetLog s @ [''gold.png'', ''clay.png'']"
      by blast
    have "attempted st s0" for st
      by (cases st rule: stage_label.cases) (simp_all add: s0)
    with s0 show ?thesis by blast
  qed
  have "length shader_assets = 8" "distinct shader_assets"
    by (simp_all add: shader_assets_def)
  with first key start show ?thesis by blast
qed

section \<open>The sample application, started\<close>

lemma resize_fbos_result:
  assumes "\<And>f. createFbo fw f = None"
  shows "\<exists>s1. resize_fbos fw s = Inr s1 \<and> mFboSource s1 \<noteq> None \<and> mFboBlur0 s1 \<noteq> None
     \<and> mFboBlur1 s1 \<noteq> None
     \<and> mTeapots s1 = mTeapots s \<and> mBackground s1 = mBackground s \<and> mSpheres s1 = mSpheres s
     \<and> mGlslBlur0 s1 = mGlslBlur0 s \<and> mGlslBlur1 s1 = mGlslBlur1 s
     \<and> mGlslComposite s1 = mGlslComposite s
     \<and> mTexGold s1 = mTexGold s \<and> mTexClay s1 = mTexClay s \<and> mShowBounds s1 = mShowBounds s"
  by (simp add: resize_fbos_def Let_def assms)

lemma update_without_tick:
  assumes "mResized s" and "resize_fbos fw s = Inr s1"
    and "static_time s = None" and "static_accumulator s = Finite 0"
  shows "update fw (Finite 0) (Finite 0) s
           = Some (Inr (s1\<lparr>static_time := Some (Finite 0), static_accumulator := Finite 0\<rparr>))"
proof -
  have rs: "(if mResized s then resize_fbos fw s else Inr s) = Inr s1"
    using assms(1,2) by simp
  have el: "dsub (Finite 0) (Finite 0) = Finite 0" "dadd (Finite 0) (Finite 0) = Finite 0"
    by (simp_all add: dsub_Finite round_zero)
  have mm: "math_min (Finite 0) literal_0_1 = Finite 0"
    by (simp add: math_min_def literal_0_1_value)
  have "update_loop fw (s1\<lparr>static_time := Some (Finite 0), static_accumulator := Finite 0\<rparr>)
          = Some (Inr (s1\<lparr>static_time := Some (Finite 0), static_accumulator := Finite 0\<rparr>))"
    by (subst update_loop.simps) (simp add: timestep_value)
  then show ?thesis
    by (simp only: update_unfold [OF rs] assms(3,4) option.case el mm)
qed

lemma draw_stops_at_blur0:
  assumes "mFboSource s \<noteq> None" "mFboBlur0 s \<noteq> None" "mTexGold s \<noteq> None" "mTexClay s \<noteq> None"
    "mTeapots s \<noteq> None" "mBackground s \<noteq> None" "\<not> mShowBounds s" "mGlslBlur0 s = None"
  shows "draw s = Inl (NullPointer ''mGlslBlur[0]'')"
  using assms
  by (auto simp: draw_def draw_scene_def draw_blur0_def split: option.splits sum.splits)

lemma sample_loadAsset:
  "loadAsset (sample_cinder c missing) p = (if p \<in> set missing then Inl (''missing '' @ p) else Inr p)"
  by (simp add: sample_cinder_def)

lemma sample_build_outcome:
  "build_outcome (sample_cinder c missing) (v, f, d) =
     (if v \<in> set missing then Inl (''missing '' @ v)
      else if f \<in> set missing then Inl (''missing '' @ f)
      else Inr \<lparr>vertex_src = v, fragment_src = f, prog_defines = d, uniforms = []\<rparr>)"
  by (simp add: build_outcome_def sample_cinder_def)

lemma sample_createFbo: "createFbo (sample_cinder c missing) f = None"
  by (simp add: sample_cinder_def)

lemma sample_setup_returns:
  assumes "''gold.png'' \<notin> set missing" and "''clay.png'' \<notin> set missing"
  shows "\<exists>s'. setup_app (sample_cinder c missing) s = Inr s'"
  using assms
  by (simp add: setup_app_def load_texture_def load_asset_def sample_cinder_def Let_def split_beta)

lemma sample_app_start:
  "mResized sample_app" "static_time sample_app = None" "static_accumulator sample_app = Finite 0"
  "\<not> mShowBounds sample_app" "mGlslBlur0 sample_app = None" "mGlslBlur1 sample_app = None"
  "mGlslComposite sample_app = None" "console sample_app = []" "assetLog sample_app = []"
  "mFboSource sample_app = None" "\<not> fullScreen sample_app" "\<not> quitRequested sample_app"
  by (simp_all add: sample_app_def DepthOfFieldApp_def)

lemma resize_kept:
  "mResized (resize fw s)" "static_time (resize fw s) = static_time s"
  "static_accumulator (resize fw s) = static_accumulator s"
  "mTeapots (resize fw s) = mTeapots s" "mBackground (resize fw s) = mBackground s"
  "mSpheres (resize fw s) = mSpheres s" "mGlslBlur0 (resize fw s) = mGlslBlur0 s"
  "mGlslBlur1 (resize fw s) = mGlslBlur1 s" "mGlslComposite (resize fw s) = mGlslComposite s"
  "mTexGold (resize fw s) = mTexGold s" "mTexClay (resize fw s) = mTexClay s"
  "mShowBounds (resize fw s) = mShowBounds s" "mFocalStop (resize fw s) = mFocalStop s"
  by (simp_all add: resize_def)

text \<open>The sample application started on the sample framework, up to the first \<^verbatim>\<open>update()\<close>.\<close>

lemma sample_started:
  assumes "''gold.png'' \<notin> set missing" and "''clay.png'' \<notin> set missing"
  shows "\<exists>s0 s1 s2. setup_app (sample_cinder c missing) sample_app = Inr s1
     \<and> s1 = reload (sample_cinder c missing) s0
     \<and> update (sample_cinder c missing) (Finite 0) (Finite 0) (resize (sample_cinder c missing) s1)
           = Some (Inr s2)
     \<and> mTeapots s0 \<noteq> None \<and> mSpheres s0 \<noteq> None \<and> mBackground s0 \<noteq> None
     \<and> mGlslBlur0 s0 = None \<and> mGlslBlur1 s0 = None \<and> mGlslComposite s0 = None
     \<and> console s0 = [] \<and> assetLog s0 = [''gold.png'', ''clay.png'']
     \<and> mTeapots s2 = mTeapots s1 \<and> mSpheres s2 = mSpheres s1 \<and> mBackground s2 = mBackground s1
     \<and> mGlslBlur0 s2 = mGlslBlur0 s1 \<and> mGlslBlur1 s2 = mGlslBlur1 s1
     \<and> mGlslComposite s2 = mGlslComposite s1
     \<and> mTexGold s2 \<noteq> None \<and> mTexClay s2 \<noteq> None \<and> \<not> mShowBounds s2
     \<and> mFboSource s2 \<noteq> None \<and> mFboBlur0 s2 \<noteq> None \<and> mFboBlur1 s2 \<noteq> None
     \<and> mFocalStop s2 = 8"
proof -
  let ?fw = "sample_cinder c missing"
  from sample_setup_returns [OF assms] obtain s1 where s1: "setup_app ?fw sample_app = Inr s1"
    by blast
  from setup_app_reload [OF s1] obtain s0 gold clay where s0: "s1 = reload ?fw s0"
    "mTeapots s0 = Some (stockShader ?fw)" "mSpheres s0 = Some (stockShader ?fw)"
    "mBackground s0 = Some (stockShader ?fw)"
    "mGlslBlur0 s0 = mGlslBlur0 sample_app" "mGlslBlur1 s0 = mGlslBlur1 sample_app"
    "mGlslComposite s0 = mGlslComposite sample_app"
    "assetLog s0 = assetLog sample_app @ [''gold.png'', ''clay.png'']" "console s0 = console sample_app"
    "mTexGold s0 = Some gold" "mTexClay s0 = Some clay"
    "mShowBounds s0 = mShowBounds sample_app"
    "static_time s0 = static_time sample_app" "static_accumulator s0 = static_accumulator sample_app"
    "mFocalStop s0 = mFocalStop sample_app"
    by blast
  let ?r = "resize ?fw s1"
  from resize_fbos_result [of ?fw ?r, OF sample_createFbo] obtain r1
    where fbos: "resize_fbos ?fw ?r = Inr r1" "mFboSource r1 \<noteq> None" "mFboBlur0 r1 \<noteq> None"
      "mFboBlur1 r1 \<noteq> None"
      "mTeapots r1 = mTeapots ?r" "mBackground r1 = mBackground ?r" "mSpheres r1 = mSpheres ?r"
      "mGlslBlur0 r1 = mGlslBlur0 ?r" "mGlslBlur1 r1 = mGlslBlur1 ?r"
      "mGlslComposite r1 = mGlslComposite ?r"
      "mTexGold r1 = mTexGold ?r" "mTexClay r1 = mTexClay ?r" "mShowBounds r1 = mShowBounds ?r"
    by blast
  let ?s2 = "r1\<lparr>static_time := Some (Finite 0), static_accumulator := Finite 0\<rparr>"
  have upd: "update ?fw (Finite 0) (Finite 0) ?r = Some (Inr ?s2)"
    by (rule update_without_tick [OF resize_kept(1) fbos(1)])
       (simp_all add: resize_kept s0 reload_kept sample_app_start)
  have "setup_app ?fw sample_app = Inr s1 \<and> s1 = reload ?fw s0
     \<and> update ?fw (Finite 0) (Finite 0) ?r = Some (Inr ?s2)
     \<and> mTeapots s0 \<noteq> None \<and> mSpheres s0 \<noteq> None \<and> mBackground s0 \<noteq> None
     \<and> mGlslBlur0 s0 = None \<and> mGlslBlur1 s0 = None \<and> mGlslComposite s0 = None
     \<and> console s0 = [] \<and> assetLog s0 = [''gold.png'', ''clay.png'']
     \<and> mTeapots ?s2 = mTeapots s1 \<and> mSpheres ?s2 = mSpheres s1 \<and> mBackground ?s2 = mBackground s1
     \<and> mGlslBlur0 ?s2 = mGlslBlur0 s1 \<and> mGlslBlur1 ?s2 = mGlslBlur1 s1
     \<and> mGlslComposite ?s2 = mGlslComposite s1
     \<and> mTexGold ?s2 \<noteq> None \<and> mTexClay ?s2 \<noteq> None \<and> \<not> mShowBounds ?s2
     \<and> mFboSource ?s2 \<noteq> None \<and> mFboBlur0 ?s2 \<noteq> None \<and> mFboBlur1 ?s2 \<noteq> None
     \<and> mFocalStop ?s2 = 8"
    using s1 upd fbos(2-) resize_fbos_kept(4) [OF fbos(1)]
    by (simp add: s0 resize_kept reload_kept sample_app_start sample_app_fields)
  then show ?thesis by blast
qed

lemma attempted_batches:
  assumes "mTeapots s \<noteq> None" "mSpheres s \<noteq> None" "mBackground s \<noteq> None"
  shows "attempted st s"
  by (cases st rule: stage_label.cases) (simp_all add: assms)

lemma slot_members:
  "mTeapots s = slot (BatchProg Teapots) s" "mSpheres s = slot (BatchProg Spheres) s"
  "mBackground s = slot (BatchProg Background) s" "mGlslBlur0 s = slot GlslBlur0 s"
  "mGlslBlur1 s = slot GlslBlur1 s" "mGlslComposite s = slot GlslComposite s"
  by simp_all

lemma reload_member:
  "mTeapots (reload fw s) = stage_result fw s (BatchProg Teapots)"
  "mSpheres (reload fw s) = stage_result fw s (BatchProg Spheres)"
  "mBackground (reload fw s) = stage_result fw s (BatchProg Background)"
  "mGlslBlur0 (reload fw s) = stage_result fw s GlslBlur0"
  "mGlslBlur1 (reload fw s) = stage_result fw s GlslBlur1"
  "mGlslComposite (reload fw s) = stage_result fw s GlslComposite"
  unfolding slot_members by (rule reload_slot [OF reload_order_all])+

text \<open>
  Claim C3. The application does not keep running after a failure at startup. With
  \<^verbatim>\<open>blur.frag\<close> missing, \<^verbatim>\<open>setup()\<close> completes: \<^verbatim>\<open>reload()\<close> catches the failure of each of
  the two blur programs and prints a message for it, still builds the composite program,
  and leaves \<^verbatim>\<open>mGlslBlur[0]\<close> as it was, which is null, there being no previous program.
  The first \<^verbatim>\<open>draw()\<close> then calls \<^verbatim>\<open>uniform\<close> through the null \<^verbatim>\<open>mGlslBlur[0]\<close> (line 354).
\<close>

theorem reload_failure_at_startup:
  "map_sum id console (setup_app (sample_cinder 7 [''blur.frag'']) sample_app)
     = Inr [''Failed to load horizontal blur shader: missing blur.frag'',
            ''Failed to load vertical blur shader: missing blur.frag'']
   \<and> mGlslBlur0 sample_app = None
   \<and> map_sum id mGlslBlur0 (setup_app (sample_cinder 7 [''blur.frag'']) sample_app) = Inr None
   \<and> map_sum id (\<lambda>s. mGlslComposite s \<noteq> None)
         (setup_app (sample_cinder 7 [''blur.frag'']) sample_app) = Inr True
   \<and> first_frame (sample_cinder 7 [''blur.frag'']) (Finite 0) sample_app
       = Some (Inl (NullPointer ''mGlslBlur[0]''))"
proof -
  let ?fw = "sample_cinder 7 [''blur.frag'']"
  have "''gold.png'' \<notin> set [''blur.frag'']" "''clay.png'' \<notin> set [''blur.frag'']" by simp_all
  from sample_started [OF this, of 7] obtain s0 s1 s2
    where st: "setup_app ?fw sample_app = Inr s1" "s1 = reload ?fw s0"
      "update ?fw (Finite 0) (Finite 0) (resize ?fw s1) = Some (Inr s2)"
    and s0: "mTeapots s0 \<noteq> None" "mSpheres s0 \<noteq> None" "mBackground s0 \<noteq> None"
      "mGlslBlur0 s0 = None" "console s0 = []"
    and s2: "mTeapots s2 = mTeapots s1" "mBackground s2 = mBackground s1" "mGlslBlur0 s2 = mGlslBlur0 s1"
      "mTexGold s2 \<noteq> None" "mTexClay s2 \<noteq> None" "\<not> mShowBounds s2"
      "mFboSource s2 \<noteq> None" "mFboBlur0 s2 \<noteq> None"
    by blast
  note att = attempted_batches [OF s0(1-3)]
  have console: "console s1 = [''Failed to load horizontal blur shader: missing blur.frag'',
            ''Failed to load vertical blur shader: missing blur.frag'']"
    by (simp add: st(2) reload_console reload_order_def stage_failures_def att s0
        sample_build_outcome failure_message_def)
  have blur0: "mGlslBlur0 s1 = None"
    by (simp add: st(2) reload_member stage_result_def sample_build_outcome s0)
  have composite: "mGlslComposite s1 \<noteq> None"
    by (simp add: st(2) reload_member stage_result_def sample_build_outcome)
  have "mTeapots s1 \<noteq> None" "mBackground s1 \<noteq> None"
    using s0(1,3) reload_keeps_programs [of "BatchProg Teapots" s0 ?fw]
      reload_keeps_programs [of "BatchProg Background" s0 ?fw]
    by (simp_all add: st(2))
  then have "draw s2 = Inl (NullPointer ''mGlslBlur[0]'')"
    using s2 blur0 by (intro draw_stops_at_blur0) simp_all
  then have "first_frame ?fw (Finite 0) sample_app = Some (Inl (NullPointer ''mGlslBlur[0]''))"
    by (simp add: first_frame_def st(1,3))
  with console blur0 composite show ?thesis
    by (simp add: st(1) sample_app_start)
qed

text \<open>
  After a start with every asset present, a reload with \<^verbatim>\<open>scene.frag\<close> missing keeps the
  teapot and background programs, prints the two messages, and still builds the others.
\<close>

lemma reload_failures_isolated_example:
  "\<exists>s1. setup_app (sample_cinder 7 []) sample_app = Inr s1
     \<and> mTeapots s1 \<noteq> None \<and> mBackground s1 \<noteq> None
     \<and> console (reload (sample_cinder 7 [''scene.frag'']) s1) = console s1 @
           [''Failed to load teapots shader: missing scene.frag'',
            ''Failed to load background shader: missing scene.frag'']
     \<and> mTeapots (reload (sample_cinder 7 [''scene.frag'']) s1) = mTeapots s1
     \<and> mBackground (reload (sample_cinder 7 [''scene.frag'']) s1) = mBackground s1
     \<and> mSpheres (reload (sample_cinder 7 [''scene.frag'']) s1) =
           Some \<lparr>vertex_src = ''instanced.vert'', fragment_src = ''debug.frag'', prog_defines = [],
                  uniforms = []\<rparr>
     \<and> mGlslComposite (reload (sample_cinder 7 [''scene.frag'']) s1) \<noteq> None"
proof -
  let ?fw = "sample_cinder 7 []" and ?bad = "sample_cinder 7 [''scene.frag'']"
  have "''gold.png'' \<notin> set []" "''clay.png'' \<notin> set []" by simp_all
  from sample_started [OF this, of 7] obtain s0 s1
    where st: "setup_app ?fw sample_app = Inr s1" "s1 = reload ?fw s0"
    and s0: "mTeapots s0 \<noteq> None" "mSpheres s0 \<noteq> None" "mBackground s0 \<noteq> None"
    by blast
  have s1: "mTeapots s1 \<noteq> None" "mSpheres s1 \<noteq> None" "mBackground s1 \<noteq> None"
    using s0 reload_keeps_programs [of "BatchProg Teapots" s0 ?fw]
      reload_keeps_programs [of "BatchProg Spheres" s0 ?fw]
      reload_keeps_programs [of "BatchProg Background" s0 ?fw]
    by (simp_all add: st(2))
  note att = attempted_batches [OF s1]
  note th = reload_failures_isolated [of ?bad s1]
  from th have c: "console (reload ?bad s1) = console s1 @ concat (map (stage_failures ?bad s1) reload_order)"
    by blast
  have inst: "(case build_outcome ?bad (stage_assets st) of
             Inl e \<Rightarrow> slot st (reload ?bad s1) = slot st s1
                       \<and> stage_failures ?bad s1 st = [failure_message st e]
                       \<and> failure_message st e \<in> set (console (reload ?bad s1))
           | Inr g \<Rightarrow> slot st (reload ?bad s1) = Some (configure st (mMaxCoCRadiusPixels s1) g)
                       \<and> stage_failures ?bad s1 st = [])" for st
    using th att [of st] by blast
  from inst [of "BatchProg Teapots"] have t: "mTeapots (reload ?bad s1) = mTeapots s1"
    by (simp add: sample_build_outcome)
  from inst [of "BatchProg Background"] have b: "mBackground (reload ?bad s1) = mBackground s1"
    by (simp add: sample_build_outcome)
  from inst [of "BatchProg Spheres"] have sp: "mSpheres (reload ?bad s1) =
      Some \<lparr>vertex_src = ''instanced.vert'', fragment_src = ''debug.frag'', prog_defines = [],
             uniforms = []\<rparr>"
    by (simp add: sample_build_outcome)
  from inst [of GlslComposite] have co: "mGlslComposite (reload ?bad s1) \<noteq> None"
    by (simp add: sample_build_outcome)
  have "concat (map (stage_failures ?bad s1) reload_order) =
           [''Failed to load teapots shader: missing scene.frag'',
            ''Failed to load background shader: missing scene.frag'']"
    by (simp add: reload_order_def stage_failures_def att sample_build_outcome failure_message_def)
  with c t b sp co st(1) s1 show ?thesis
    by simp
qed

lemma sample_loads_all: "\<forall>p\<in>set shader_assets. \<exists>d. loadAsset (sample_cinder c []) p = Inr d"
  by (simp add: sample_loadAsset)

text \<open>
  Claim C4 as stated fails: at startup, after the two images, \<^verbatim>\<open>reload()\<close> loads shader assets
  by twelve requests for eight different files, not five.
\<close>

theorem five_shader_assets_counterexample:
  "map_sum id assetLog (setup_app (sample_cinder 7 []) sample_app)
     = Inr [''gold.png'', ''clay.png'',
            ''instanced.vert'', ''scene.frag'', ''instanced.vert'', ''debug.frag'',
            ''single.vert'', ''scene.frag'', ''blur.vert'', ''blur.frag'',
            ''blur.vert'', ''blur.frag'', ''composite.vert'', ''composite.frag'']
   \<and> card (set [''instanced.vert'', ''scene.frag'', ''instanced.vert'', ''debug.frag'',
            ''single.vert'', ''scene.frag'', ''blur.vert'', ''blur.frag'',
            ''blur.vert'', ''blur.frag'', ''composite.vert'', ''composite.frag'']) = 8"
proof -
  let ?fw = "sample_cinder 7 []"
  have "''gold.png'' \<notin> set []" "''clay.png'' \<notin> set []" by simp_all
  from sample_started [OF this, of 7] obtain s0 s1
    where st: "setup_app ?fw sample_app = Inr s1" "s1 = reload ?fw s0"
    and s0: "mTeapots s0 \<noteq> None" "mSpheres s0 \<noteq> None" "mBackground s0 \<noteq> None"
      "assetLog s0 = [''gold.png'', ''clay.png'']"
    by blast
  have "\<forall>st. attempted st s0" using attempted_batches [OF s0(1-3)] by blast
  from all_attempted_requests [OF this sample_loads_all]
  have "assetLog s1 = [''gold.png'', ''clay.png'',
            ''instanced.vert'', ''scene.frag'', ''instanced.vert'', ''debug.frag'',
            ''single.vert'', ''scene.frag'', ''blur.vert'', ''blur.frag'',
            ''blur.vert'', ''blur.frag'', ''composite.vert'', ''composite.frag'']"
    by (simp add: st(2) reload_assetLog s0(4))
  moreover have "card (set [''instanced.vert'', ''scene.frag'', ''instanced.vert'', ''debug.frag'',
            ''single.vert'', ''scene.frag'', ''blur.vert'', ''blur.frag'',
            ''blur.vert'', ''blur.frag'', ''composite.vert'', ''composite.frag'']) = 8"
    unfolding List.card_set by simp
  ultimately show ?thesis by (simp only: st(1) map_sum.simps id_apply)
qed

lemma attempted_shift: "attempted st (s\<lparr>mShiftDown := b\<rparr>) = attempted st s"
  by (cases st rule: stage_label.cases) simp_all

text \<open>
  After a start with every asset present, pressing R makes the twelve requests again.
\<close>

theorem reload_shader_assets_witness:
  "\<exists>s1. setup_app (sample_cinder 7 []) sample_app = Inr s1
     \<and> (\<forall>st. attempted st s1)
     \<and> (\<forall>p\<in>set shader_assets. \<exists>d. loadAsset (sample_cinder 7 []) p = Inr d)
     \<and> key_getCode \<lparr>key_getCode = KEY_r, key_isShiftDown = False\<rparr> = KEY_r
     \<and> assetLog (keyDown (sample_cinder 7 []) \<lparr>key_getCode = KEY_r, key_isShiftDown = False\<rparr> s1)
         = assetLog s1 @
           [''instanced.vert'', ''scene.frag'', ''instanced.vert'', ''debug.frag'',
            ''single.vert'', ''scene.frag'', ''blur.vert'', ''blur.frag'',
            ''blur.vert'', ''blur.frag'', ''composite.vert'', ''composite.frag'']"
proof -
  let ?fw = "sample_cinder 7 []"
  let ?ev = "\<lparr>key_getCode = KEY_r, key_isShiftDown = False\<rparr>"
  have "''gold.png'' \<notin> set []" "''clay.png'' \<notin> set []" by simp_all
  from sample_started [OF this, of 7] obtain s0 s1
    where st: "setup_app ?fw sample_app = Inr s1" "s1 = reload ?fw s0"
    and s0: "mTeapots s0 \<noteq> None" "mSpheres s0 \<noteq> None" "mBackground s0 \<noteq> None"
    by blast
  have s1: "mTeapots s1 \<noteq> None" "mSpheres s1 \<noteq> None" "mBackground s1 \<noteq> None"
    using s0 reload_keeps_programs [of "BatchProg Teapots" s0 ?fw]
      reload_keeps_programs [of "BatchProg Spheres" s0 ?fw]
      reload_keeps_programs [of "BatchProg Background" s0 ?fw]
    by (simp_all add: st(2))
  have att: "\<forall>st. attempted st s1" using attempted_batches [OF s1] by blast
  let ?s = "s1\<lparr>mShiftDown := False\<rparr>"
  have att': "\<forall>st. attempted st ?s" using att by (simp add: attempted_shift)
  have key: "keyDown ?fw ?ev s1 = reload ?fw ?s"
    using reload_shader_assets [of ?fw s1 ?ev] by simp
  from reload_shader_assets [of ?fw ?s ?ev] att' sample_loads_all [of 7]
  have "assetLog (reload ?fw ?s) = assetLog ?s @
           [''instanced.vert'', ''scene.frag'', ''instanced.vert'', ''debug.frag'',
            ''single.vert'', ''scene.frag'', ''blur.vert'', ''blur.frag'',
            ''blur.vert'', ''blur.frag'', ''composite.vert'', ''composite.frag'']"
    by blast
  with key st(1) att sample_loads_all [of 7] show ?thesis
    by simp
qed

text \<open>
  Claim C6. Not every execution of \<^verbatim>\<open>draw()\<close> performs the four stages. At a start with
  \<^verbatim>\<open>blur.frag\<close> missing (the failure of claim C3), the first \<^verbatim>\<open>draw()\<close> renders the scene into
  the source framebuffer, teapots then background, and stops in the horizontal blur stage
  at the null \<^verbatim>\<open>mGlslBlur[0]\<close> (line 354): the blur and composite passes are never made.
\<close>

theorem draw_stops_at_startup:
  "\<exists>s1 s2 scene.
       setup_app (sample_cinder 7 [''blur.frag'']) sample_app = Inr s1
     \<and> update (sample_cinder 7 [''blur.frag'']) (Finite 0) (Finite 0)
            (resize (sample_cinder 7 [''blur.frag'']) s1) = Some (Inr s2)
     \<and> draw_scene s2 = Inr scene
     \<and> passes scene =
         [Pass (DrawnInstanced Teapots 729) FboSource [(0, TexGold)] (Some (BatchProg Teapots)),
          Pass (DrawnBatch Background) FboSource [(0, TexClay)] (Some (BatchProg Background))]
     \<and> draw_blur0 s2 = Inl (NullPointer ''mGlslBlur[0]'')
     \<and> draw s2 = Inl (NullPointer ''mGlslBlur[0]'')"
proof -
  let ?fw = "sample_cinder 7 [''blur.frag'']"
  have "''gold.png'' \<notin> set [''blur.frag'']" "''clay.png'' \<notin> set [''blur.frag'']" by simp_all
  from sample_started [OF this, of 7] obtain s0 s1 s2
    where st: "setup_app ?fw sample_app = Inr s1" "s1 = reload ?fw s0"
      "update ?fw (Finite 0) (Finite 0) (resize ?fw s1) = Some (Inr s2)"
    and s0: "mTeapots s0 \<noteq> None" "mSpheres s0 \<noteq> None" "mBackground s0 \<noteq> None"
      "mGlslBlur0 s0 = None"
    and s2: "mTeapots s2 = mTeapots s1" "mBackground s2 = mBackground s1" "mGlslBlur0 s2 = mGlslBlur0 s1"
      "mTexGold s2 \<noteq> None" "mTexClay s2 \<noteq> None" "\<not> mShowBounds s2"
      "mFboSource s2 \<noteq> None" "mFboBlur0 s2 \<noteq> None"
    by blast
  have blur0: "mGlslBlur0 s2 = None"
    by (simp add: s2(3) st(2) reload_member stage_result_def sample_build_outcome s0)
  have batches: "mTeapots s2 \<noteq> None" "mBackground s2 \<noteq> None"
    using s0(1,3) reload_keeps_programs [of "BatchProg Teapots" s0 ?fw]
      reload_keeps_programs [of "BatchProg Background" s0 ?fw]
    by (simp_all add: s2(1,2) st(2))
  from batches s2(4,5,7) obtain source gold teapots clay background
    where refs: "mFboSource s2 = Some source" "mTexGold s2 = Some gold" "mTeapots s2 = Some teapots"
      "mTexClay s2 = Some clay" "mBackground s2 = Some background"
    by auto
  define scene where "scene = (case draw_scene s2 of Inr c \<Rightarrow> c | Inl e \<Rightarrow> [])"
  have scene: "draw_scene s2 = Inr scene"
    by (simp add: scene_def draw_scene_def refs s2(6))
  have order: "passes scene =
         [Pass (DrawnInstanced Teapots 729) FboSource [(0, TexGold)] (Some (BatchProg Teapots)),
          Pass (DrawnBatch Background) FboSource [(0, TexClay)] (Some (BatchProg Background))]"
    by (simp add: scene_def draw_scene_def refs s2(6) passes_def scene_uniforms_def)
  from s2(8) obtain b0 where "mFboBlur0 s2 = Some b0" by auto
  then have stop: "draw_blur0 s2 = Inl (NullPointer ''mGlslBlur[0]'')"
    by (simp add: draw_blur0_def refs blur0)
  have "draw s2 = Inl (NullPointer ''mGlslBlur[0]'')"
    by (simp add: draw_def scene stop)
  with st(1,3) scene order stop show ?thesis by blast
qed

text \<open>
  The first frame of the sample application with every asset present: the five passes, in
  order, without the bounding spheres.
\<close>

lemma draw_pass_order_example:
  "\<exists>s1 s2 calls. setup_app (sample_cinder 7 []) sample_app = Inr s1
     \<and> update (sample_cinder 7 []) (Finite 0) (Finite 0) (resize (sample_cinder 7 []) s1) = Some (Inr s2)
     \<and> resources_ready s2 \<and> draw s2 = Inr calls
     \<and> first_frame (sample_cinder 7 []) (Finite 0) sample_app = Some (Inr calls)
     \<and> passes calls =
         [Pass (DrawnInstanced Teapots 729) FboSource [(0, TexGold)] (Some (BatchProg Teapots)),
          Pass (DrawnBatch Background) FboSource [(0, TexClay)] (Some (BatchProg Background)),
          Pass DrawnRect FboBlur0 [(0, ColorTexture FboSource)] (Some GlslBlur0),
          Pass DrawnRect FboBlur1 [(0, Texture2d FboBlur0 0), (1, Texture2d FboBlur0 1)] (Some GlslBlur1),
          Pass DrawnRect Window
            [(0, ColorTexture FboSource), (1, Texture2d FboBlur1 0), (2, Texture2d FboBlur1 1)]
            (Some GlslComposite)]"
proof -
  let ?fw = "sample_cinder 7 []"
  have "''gold.png'' \<notin> set []" "''clay.png'' \<notin> set []" by simp_all
  from sample_started [OF this, of 7] obtain s0 s1 s2
    where st: "setup_app ?fw sample_app = Inr s1" "s1 = reload ?fw s0"
      "update ?fw (Finite 0) (Finite 0) (resize ?fw s1) = Some (Inr s2)"
    and s0: "mTeapots s0 \<noteq> None" "mSpheres s0 \<noteq> None" "mBackground s0 \<noteq> None"
    and s2: "mTeapots s2 = mTeapots s1" "mSpheres s2 = mSpheres s1" "mBackground s2 = mBackground s1"
      "mGlslBlur0 s2 = mGlslBlur0 s1" "mGlslBlur1 s2 = mGlslBlur1 s1"
      "mGlslComposite s2 = mGlslComposite s1"
      "mTexGold s2 \<noteq> None" "mTexClay s2 \<noteq> None" "\<not> mShowBounds s2"
      "mFboSource s2 \<noteq> None" "mFboBlur0 s2 \<noteq> None" "mFboBlur1 s2 \<noteq> None"
    by blast
  have ready: "resources_ready s2"
    using s0 s2(7-)
    by (simp add: resources_ready_def s2(1-6) st(2) reload_member stage_result_def
        sample_build_outcome split: sum.splits)
  from draw_pass_order [OF ready] obtain calls where calls: "draw s2 = Inr calls"
    "passes calls = scene_passes (mShowBounds s2) @ post_passes"
    by blast
  have "first_frame ?fw (Finite 0) sample_app = Some (Inr calls)"
    by (simp add: first_frame_def st(1,3) calls(1))
  with st(1,3) ready calls s2(9) show ?thesis
    by (simp add: scene_passes_def post_passes_def)
qed

text \<open>
  Escape in a window requests the quit; Escape after F leaves fullscreen and requests none.
\<close>

theorem escape_exits_fullscreen_or_quits_witness:
  "key_getCode \<lparr>key_getCode = KEY_ESCAPE, key_isShiftDown = False\<rparr> = KEY_ESCAPE
   \<and> \<not> fullScreen sample_app
   \<and> quitRequested (keyDown (sample_cinder 7 []) \<lparr>key_getCode = KEY_ESCAPE, key_isShiftDown = False\<rparr> sample_app)
   \<and> \<not> fullScreen (keyDown (sample_cinder 7 []) \<lparr>key_getCode = KEY_ESCAPE, key_isShiftDown = False\<rparr> sample_app)
   \<and> fullScreen (keyDown (sample_cinder 7 []) \<lparr>key_getCode = KEY_f, key_isShiftDown = False\<rparr> sample_app)
   \<and> \<not> fullScreen (keyDown (sample_cinder 7 []) \<lparr>key_getCode = KEY_ESCAPE, key_isShiftDown = False\<rparr>
         (keyDown (sample_cinder 7 []) \<lparr>key_getCode = KEY_f, key_isShiftDown = False\<rparr> sample_app))
   \<and> \<not> quitRequested (keyDown (sample_cinder 7 []) \<lparr>key_getCode = KEY_ESCAPE, key_isShiftDown = False\<rparr>
         (keyDown (sample_cinder 7 []) \<lparr>key_getCode = KEY_f, key_isShiftDown = False\<rparr> sample_app))"
proof -
  let ?fw = "sample_cinder 7 []"
  let ?esc = "\<lparr>key_getCode = KEY_ESCAPE, key_isShiftDown = False\<rparr>"
  let ?f = "\<lparr>key_getCode = KEY_f, key_isShiftDown = False\<rparr>"
  have esc: "key_getCode ?esc = KEY_ESCAPE" by simp
  have full: "fullScreen (keyDown ?fw ?f sample_app)" "\<not> quitRequested (keyDown ?fw ?f sample_app)"
    by (simp_all add: keyDown_def Let_def sample_app_start)
  from escape_exits_fullscreen_or_quits [OF esc, of ?fw sample_app]
  have a: "quitRequested (keyDown ?fw ?esc sample_app)" "\<not> fullScreen (keyDown ?fw ?esc sample_app)"
    using sample_app_start(11) by blast+
  from escape_exits_fullscreen_or_quits [OF esc, of ?fw "keyDown ?fw ?f sample_app"]
  have b: "\<not> fullScreen (keyDown ?fw ?esc (keyDown ?fw ?f sample_app))"
    "\<not> quitRequested (keyDown ?fw ?esc (keyDown ?fw ?f sample_app))"
    using full by blast+
  from esc a b full sample_app_start(11) show ?thesis by blast
qed

section \<open>The 729 instances\<close>

lemma set_grid: "set grid = {- 4 .. 4} \<times> {- 4 .. 4} \<times> {- 4 .. 4}"
  unfolding grid_def by (auto simp del: upto_rec_numeral)

lemma distinct_grid: "distinct grid"
proof -
  have "card (set grid) = 729" by (simp add: set_grid)
  then show ?thesis by (intro card_distinct) (simp add: length_grid)
qed

lemma loop_z_result:
  "loop_z fw shift bounds ray time \<lparr>sc_rand = randSeed fw 12345, sc_out = [], sc_dist = FLT_MAX, sc_tested = []\<rparr>
     = \<lparr>sc_rand = snd (rand_draws fw 729 (randSeed fw 12345)),
        sc_out = tick_matrices fw time,
        sc_dist = (if shift then nearest (hit_dists fw bounds ray (tick_matrices fw time)) FLT_MAX else FLT_MAX),
        sc_tested = (if shift then map (transformed fw bounds) (tick_matrices fw time) else [])\<rparr>"
  by (simp add: loop_z_grid scan_fold length_grid tick_matrices_def)

lemma nearest_hits_fold:
  "nearest (hit_dists fw bounds ray ms) d =
     fold (\<lambda>b d. case intersect fw b ray of (n, mn, mx) \<Rightarrow> if 0 < n \<and> mn < d then mn else d)
          (map (transformed fw bounds) ms) d"
  by (induction ms arbitrary: d) (simp_all add: hit_dists_def nearest_def split_beta)

text \<open>
  Claim C7. The three loops visit the 729 grid positions \<open>(x, y, z)\<close> with \<open>x\<close>, \<open>y\<close>, \<open>z\<close> from
  -4 to 4, each once; a fixed-tick update writes exactly 729 matrices, one for each
  position in order. When Shift is held it tests the mouse ray against exactly the 729
  spheres obtained by transforming the teapot bounding sphere with those matrices, in
  order: \<^verbatim>\<open>dist\<close> after the loops is the outcome of lines 270 and 271 on the result of
  \<^verbatim>\<open>intersect\<close> for each of them, starting from \<^verbatim>\<open>FLT_MAX\<close>, and it is what line 280 compares
  and assigns to \<open>mFocalPlane\<close>. When Shift is not held no sphere is tested and \<^verbatim>\<open>dist\<close> stays
  \<^verbatim>\<open>FLT_MAX\<close>. \<^verbatim>\<open>draw()\<close> issues the instanced teapot draw once, with 729 instances.
\<close>

theorem instances_729:
  assumes "0 \<le> mFocalStop s" and "mFocalStop s \<le> 16"
  shows "length grid = 729 \<and> distinct grid \<and> set grid = {- 4 .. 4} \<times> {- 4 .. 4} \<times> {- 4 .. 4}
    \<and> (\<exists>s'. update_timestep fw ts s = Inr s'
        \<and> (let st = loop_z fw (mShiftDown s) (mBounds s) (tick_ray fw s) (mTime s')
                        \<lparr>sc_rand = randSeed fw 12345, sc_out = [], sc_dist = FLT_MAX, sc_tested = []\<rparr>
            in mInstances s' = sc_out st
             \<and> length (sc_out st) = 729
             \<and> sc_out st = map (\<lambda>(p, d). instance_matrix fw (mTime s') p d)
                               (zip grid (fst (rand_draws fw 729 (randSeed fw 12345))))
             \<and> sc_tested st = (if mShiftDown s then map (transformed fw (mBounds s)) (sc_out st) else [])
             \<and> length (sc_tested st) = (if mShiftDown s then 729 else 0)
             \<and> sc_dist st =
                 fold (\<lambda>b d. case intersect fw b (tick_ray fw s) of
                                (n, mn, mx) \<Rightarrow> if 0 < n \<and> mn < d then mn else d)
                      (sc_tested st) FLT_MAX
             \<and> mFocalPlane s' = (if mShiftDown s \<and> sc_dist st < FLT_MAX then sc_dist st
                                  else max (mFocalPlane s) (mFocalLength s'))))
    \<and> (\<forall>calls. draw s = Inr calls \<longrightarrow>
          instanced_draws calls = (Teapots, 729) # (if mShowBounds s then [(Spheres, 729)] else []))"
proof -
  note at = fstops_at_Some [OF assms]
  have tick: "\<exists>s'. update_timestep fw ts s = Inr s'
        \<and> (let st = loop_z fw (mShiftDown s) (mBounds s) (tick_ray fw s) (mTime s')
                        \<lparr>sc_rand = randSeed fw 12345, sc_out = [], sc_dist = FLT_MAX, sc_tested = []\<rparr>
            in mInstances s' = sc_out st
             \<and> length (sc_out st) = 729
             \<and> sc_out st = map (\<lambda>(p, d). instance_matrix fw (mTime s') p d)
                               (zip grid (fst (rand_draws fw 729 (randSeed fw 12345))))
             \<and> sc_tested st = (if mShiftDown s then map (transformed fw (mBounds s)) (sc_out st) else [])
             \<and> length (sc_tested st) = (if mShiftDown s then 729 else 0)
             \<and> sc_dist st =
                 fold (\<lambda>b d. case intersect fw b (tick_ray fw s) of
                                (n, mn, mx) \<Rightarrow> if 0 < n \<and> mn < d then mn else d)
                      (sc_tested st) FLT_MAX
             \<and> mFocalPlane s' = (if mShiftDown s \<and> sc_dist st < FLT_MAX then sc_dist st
                                  else max (mFocalPlane s) (mFocalLength s')))"
    by (simp add: update_timestep_result [OF at(1)] Let_def loop_z_result length_tick_matrices
        nearest_hits_fold)
       (simp add: tick_matrices_def instance_matrices_def length_grid)
  show ?thesis
    using tick draw_instanced [of s] length_grid distinct_grid set_grid by blast
qed

lemma fold_nearest_const:
  assumes "xs \<noteq> []" and "c < d"
  shows "fold (\<lambda>b d. if c < d then c else d) xs d = (c::real)"
proof -
  have same: "fold (\<lambda>b d. if c < d then c else d) ys c = c" for ys :: "'a list"
    by (induction ys) simp_all
  from assms show ?thesis
    by (cases xs) (simp_all add: same)
qed

text \<open>
  With Shift held and every sphere hit at distance 7, 729 matrices are written, 729
  spheres tested, \<^verbatim>\<open>dist\<close> ends as 7 and becomes the focal plane; the first frame draws 729
  teapot instances.
\<close>

theorem instances_729_witness:
  "0 \<le> mFocalStop sample_shift \<and> mFocalStop sample_shift \<le> 16 \<and> mShiftDown sample_shift
   \<and> (\<exists>s'. update_timestep (sample_cinder 7 []) (1 / 60) sample_shift = Inr s'
         \<and> length (mInstances s') = 729
         \<and> length (sc_tested (loop_z (sample_cinder 7 []) True (mBounds sample_shift)
               (tick_ray (sample_cinder 7 []) sample_shift) (mTime s')
               \<lparr>sc_rand = randSeed (sample_cinder 7 []) 12345, sc_out = [], sc_dist = FLT_MAX,
                 sc_tested = []\<rparr>)) = 729
         \<and> sc_dist (loop_z (sample_cinder 7 []) True (mBounds sample_shift)
               (tick_ray (sample_cinder 7 []) sample_shift) (mTime s')
               \<lparr>sc_rand = randSeed (sample_cinder 7 []) 12345, sc_out = [], sc_dist = FLT_MAX,
                 sc_tested = []\<rparr>) = 7
         \<and> mFocalPlane s' = 7)
   \<and> (\<exists>s1 s2 calls. setup_app (sample_cinder 7 []) sample_app = Inr s1
         \<and> update (sample_cinder 7 []) (Finite 0) (Finite 0) (resize (sample_cinder 7 []) s1)
              = Some (Inr s2)
         \<and> draw s2 = Inr calls \<and> 0 \<le> mFocalStop s2 \<and> mFocalStop s2 \<le> 16
         \<and> instanced_draws calls = [(Teapots, 729)])"
proof -
  let ?fw = "sample_cinder 7 []"
  let ?st = "\<lambda>t. loop_z ?fw True (mBounds sample_shift) (tick_ray ?fw sample_shift) t
               \<lparr>sc_rand = randSeed ?fw 12345, sc_out = [], sc_dist = FLT_MAX, sc_tested = []\<rparr>"
  have range: "0 \<le> mFocalStop sample_shift" "mFocalStop sample_shift \<le> 16"
    by (simp_all add: sample_shift_fields)
  from instances_729 [OF range, of ?fw "1 / 60"]
  obtain s' where s': "update_timestep ?fw (1 / 60) sample_shift = Inr s'"
    and out: "mInstances s' = sc_out (?st (mTime s'))" "length (sc_out (?st (mTime s'))) = 729"
    and tested: "length (sc_tested (?st (mTime s'))) = 729"
    and dist: "sc_dist (?st (mTime s')) =
                 fold (\<lambda>b d. case intersect ?fw b (tick_ray ?fw sample_shift) of
                                (n, mn, mx) \<Rightarrow> if 0 < n \<and> mn < d then mn else d)
                      (sc_tested (?st (mTime s'))) FLT_MAX"
    and focal: "mFocalPlane s' = (if mShiftDown sample_shift \<and> sc_dist (?st (mTime s')) < FLT_MAX
                                  then sc_dist (?st (mTime s'))
                                  else max (mFocalPlane sample_shift) (mFocalLength s'))"
    by (auto simp: Let_def sample_shift_fields)
  have isect: "(\<lambda>b d. case intersect ?fw b (tick_ray ?fw sample_shift) of
                        (n, mn, mx) \<Rightarrow> if 0 < n \<and> mn < d then mn else d)
               = (\<lambda>b d. if 7 < d then 7 else d)"
    by (simp add: sample_cinder_def)
  from tested have ne: "sc_tested (?st (mTime s')) \<noteq> []" by auto
  have d7: "sc_dist (?st (mTime s')) = 7"
    unfolding dist isect by (rule fold_nearest_const [OF ne]) (simp add: FLT_MAX_def)
  have f7: "mFocalPlane s' = 7"
    unfolding focal d7 by (simp add: sample_shift_fields FLT_MAX_def)
  have tick: "\<exists>s'. update_timestep ?fw (1 / 60) sample_shift = Inr s'
         \<and> length (mInstances s') = 729
         \<and> length (sc_tested (?st (mTime s'))) = 729
         \<and> sc_dist (?st (mTime s')) = 7
         \<and> mFocalPlane s' = 7"
    using s' out tested d7 f7 by auto
  have "''gold.png'' \<notin> set []" "''clay.png'' \<notin> set []" by simp_all
  from sample_started [OF this, of 7] obtain s0 s1 s2
    where st: "setup_app ?fw sample_app = Inr s1" "s1 = reload ?fw s0"
      "update ?fw (Finite 0) (Finite 0) (resize ?fw s1) = Some (Inr s2)"
    and s0: "mTeapots s0 \<noteq> None" "mSpheres s0 \<noteq> None" "mBackground s0 \<noteq> None"
    and s2: "mTeapots s2 = mTeapots s1" "mSpheres s2 = mSpheres s1" "mBackground s2 = mBackground s1"
      "mGlslBlur0 s2 = mGlslBlur0 s1" "mGlslBlur1 s2 = mGlslBlur1 s1"
      "mGlslComposite s2 = mGlslComposite s1"
      "mTexGold s2 \<noteq> None" "mTexClay s2 \<noteq> None" "\<not> mShowBounds s2"
      "mFboSource s2 \<noteq> None" "mFboBlur0 s2 \<noteq> None" "mFboBlur1 s2 \<noteq> None"
      "mFocalStop s2 = 8"
    by blast
  have ready: "resources_ready s2"
    using s0 s2(7-12)
    by (simp add: resources_ready_def s2(1-6) st(2) reload_member stage_result_def
        sample_build_outcome split: sum.splits)
  then obtain calls where calls: "draw s2 = Inr calls"
    using draw_returns_iff [of s2] by blast
  have r2: "0 \<le> mFocalStop s2" "mFocalStop s2 \<le> 16" by (simp_all add: s2(13))
  from instances_729 [OF r2, of ?fw "1 / 60"] calls s2(9)
  have "instanced_draws calls = [(Teapots, 729)]"
    by simp
  then have "\<exists>s1 s2 calls. setup_app ?fw sample_app = Inr s1
         \<and> update ?fw (Finite 0) (Finite 0) (resize ?fw s1) = Some (Inr s2)
         \<and> draw s2 = Inr calls \<and> 0 \<le> mFocalStop s2 \<and> mFocalStop s2 \<le> 16
         \<and> instanced_draws calls = [(Teapots, 729)]"
    using st(1,3) calls r2 by blast
  with range tick show ?thesis
    by (simp add: sample_shift_fields)
qed

end
